theory Spec2Isabelle
  imports Main
begin

section \<open>Python values, exceptions and the request\<close>

text \<open>
  The handlers of \<^verbatim>\<open>src/server.py\<close> pass JSON-like Python values around: the decoded
  request body, the dictionaries returned by \<^verbatim>\<open>TaskCrud\<close>. Floats are left out; a
  dictionary is an association list with its keys in insertion order (a Python dictionary
  has no key twice; where a list does, \<^verbatim>\<open>get\<close> sees the first binding).
\<close>

datatype pyval =
    PyNone
  | PyBool bool
  | PyInt int
  | PyStr string
  | PyList "pyval list"
  | PyDict "(string \<times> pyval) list"

text \<open>
  An exception is its class name and \<^verbatim>\<open>str(e)\<close>. Every exception of the model is an
  instance of \<^verbatim>\<open>Exception\<close>, the class the handlers catch.
\<close>

datatype exn = Exn (exn_class: string) (exn_str: string)

text \<open>
  \<^verbatim>\<open>value.get(key, default)\<close>: defined on dictionaries, an \<^verbatim>\<open>AttributeError\<close> on
  every other value of the model.
\<close>

fun py_type_name :: "pyval \<Rightarrow> string" where
  "py_type_name PyNone = ''NoneType''"
| "py_type_name (PyBool b) = ''bool''"
| "py_type_name (PyInt i) = ''int''"
| "py_type_name (PyStr s) = ''str''"
| "py_type_name (PyList xs) = ''list''"
| "py_type_name (PyDict kvs) = ''dict''"

definition py_get :: "pyval \<Rightarrow> string \<Rightarrow> pyval \<Rightarrow> exn + pyval" where
  "py_get v k dflt =
     (case v of
        PyDict kvs \<Rightarrow> Inr (case map_of kvs k of None \<Rightarrow> dflt | Some x \<Rightarrow> x)
      | _ \<Rightarrow> Inl (Exn ''AttributeError''
                 ([CHR 0x27] @ py_type_name v @ [CHR 0x27] @ '' object has no attribute ''
                  @ [CHR 0x27] @ ''get'' @ [CHR 0x27])))"

text \<open>
  The truth value of what \<^verbatim>\<open>redis.get\<close> returns (\<^verbatim>\<open>None\<close> or a string):
  \<^verbatim>\<open>None\<close> and the empty string are falsy. The same test is applied to the query
  arguments \<^verbatim>\<open>task_id\<close> and \<^verbatim>\<open>limit\<close> as \<^verbatim>\<open>get_argument\<close> returns them.
\<close>

fun truthy :: "string option \<Rightarrow> bool" where
  "truthy None = False"
| "truthy (Some v) = (v \<noteq> [])"

text \<open>How an f-string renders an optional string: \<^verbatim>\<open>None\<close> prints as \<^verbatim>\<open>None\<close>.\<close>

fun py_str :: "string option \<Rightarrow> string" where
  "py_str None = ''None''"
| "py_str (Some v) = v"

text \<open>
  A value supplied under a name (in the query string or in a form-encoded body), as
  Python's UTF-8 codec leaves its percent-decoded bytes: the decoded text, whose
  characters are code points below 256 here, or the bytes themselves when they are not
  UTF-8.
\<close>

datatype argument = Text string | Undecodable string

text \<open>
  The request as the handlers read it: \<^verbatim>\<open>self.request.arguments\<close>, under each name
  the values supplied in their order (none when the name is absent), and the raw body.
\<close>

record request =
  arguments :: "string \<Rightarrow> argument list"
  body :: string

text \<open>
  \<^verbatim>\<open>repr\<close> of a byte string, which the message of Tornado's
  \<^verbatim>\<open>HTTPError\<close> quotes.
\<close>

definition hex_digit :: "nat \<Rightarrow> char" where
  "hex_digit n = ''0123456789abcdef'' ! n"

definition bytes_repr_char :: "char \<Rightarrow> char \<Rightarrow> string" where
  "bytes_repr_char q c =
     (if c = q \<or> c = CHR 0x5C then [CHR 0x5C, c]
      else if c = CHR 0x09 then [CHR 0x5C, CHR ''t'']
      else if c = CHR 0x0A then [CHR 0x5C, CHR ''n'']
      else if c = CHR 0x0D then [CHR 0x5C, CHR ''r'']
      else if (of_char c :: nat) < 0x20 \<or> 0x7F \<le> (of_char c :: nat)
      then [CHR 0x5C, CHR ''x'', hex_digit (of_char c div 16), hex_digit (of_char c mod 16)]
      else [c])"

definition bytes_repr :: "string \<Rightarrow> string" where
  "bytes_repr b =
     (let q = (if CHR 0x27 \<in> set b \<and> CHR 0x22 \<notin> set b then CHR 0x22 else CHR 0x27)
      in [CHR ''b'', q] @ concat (map (bytes_repr_char q) b) @ [q])"

text \<open>
  Tornado's \<^verbatim>\<open>RequestHandler.decode_argument\<close>: bytes that are not UTF-8 raise
  \<^verbatim>\<open>HTTPError(400, "Invalid unicode in <name>: <repr of the first 40 bytes>")\<close>,
  whose \<^verbatim>\<open>str\<close> is built from the status code, its reason and that message.
\<close>

definition decode_argument :: "string \<Rightarrow> argument \<Rightarrow> exn + string" where
  "decode_argument name v =
     (case v of
        Text s \<Rightarrow> Inr s
      | Undecodable b \<Rightarrow>
          Inl (Exn ''HTTPError''
                 (''HTTP 400: Bad Request (Invalid unicode in '' @ name @ '': ''
                  @ bytes_repr (take 40 b) @ '')'')))"

text \<open>
  The substitution of \<^verbatim>\<open>_remove_control_chars_regex\<close>, the character class
  \<^verbatim>\<open>[\x00-\x08\x0e-\x1f]\<close>, by a blank.
\<close>

definition remove_control_chars :: "string \<Rightarrow> string" where
  "remove_control_chars s =
     map (\<lambda>c. if (of_char c :: nat) \<le> 0x08 \<or> (0x0E \<le> (of_char c :: nat) \<and> (of_char c :: nat) \<le> 0x1F)
              then CHR '' '' else c) s"

text \<open>
  \<^verbatim>\<open>str.strip()\<close>: the white space of Python among the code points below 256 is
  dropped at both ends.
\<close>

definition is_space :: "char \<Rightarrow> bool" where
  "is_space c =
     ((0x09 \<le> (of_char c :: nat) \<and> (of_char c :: nat) \<le> 0x0D)
      \<or> (0x1C \<le> (of_char c :: nat) \<and> (of_char c :: nat) \<le> 0x20)
      \<or> (of_char c :: nat) = 0x85 \<or> (of_char c :: nat) = 0xA0)"

definition strip :: "string \<Rightarrow> string" where
  "strip s = rev (dropWhile is_space (rev (dropWhile is_space s)))"

text \<open>
  Tornado's \<^verbatim>\<open>RequestHandler._get_arguments\<close> with \<^verbatim>\<open>strip=True\<close>: every
  value under the name is decoded, cleaned of control characters and stripped; the first
  value that does not decode raises.
\<close>

fun get_arguments :: "string \<Rightarrow> argument list \<Rightarrow> exn + string list" where
  "get_arguments name [] = Inr []"
| "get_arguments name (v # vs) =
     (case decode_argument name v of
        Inl e \<Rightarrow> Inl e
      | Inr s \<Rightarrow>
          (case get_arguments name vs of
             Inl e \<Rightarrow> Inl e
           | Inr values \<Rightarrow> Inr (strip (remove_control_chars s) # values)))"

text \<open>
  Tornado's \<^verbatim>\<open>RequestHandler.get_argument\<close> with a default: the last of the values,
  or the default when there is none.
\<close>

definition get_argument :: "request \<Rightarrow> string \<Rightarrow> string option \<Rightarrow> exn + string option" where
  "get_argument req name dflt =
     (case get_arguments name (arguments req name) of
        Inl e \<Rightarrow> Inl e
      | Inr args \<Rightarrow> Inr (if args = [] then dflt else Some (last args)))"

text \<open>
  Modelled from the spec: the status \<^verbatim>\<open>PENDING\<close> of the class
  \<^verbatim>\<open>TaskStatus\<close> (\<^verbatim>\<open>src/server/structures/task.py\<close> is missing); the
  comments of \<^verbatim>\<open>ResultsHandler.get\<close> spell its value \<^verbatim>\<open>'pending'\<close>.
\<close>

definition TaskStatus_PENDING :: string where
  "TaskStatus_PENDING = ''pending''"

text \<open>
  Modelled from the spec: the terminal status \<^verbatim>\<open>SUCCESS\<close> of \<^verbatim>\<open>TaskStatus\<close>
  (missing), spelt \<^verbatim>\<open>'success'\<close> in the comments of \<^verbatim>\<open>ResultsHandler.get\<close>.
\<close>

definition TaskStatus_SUCCESS :: string where
  "TaskStatus_SUCCESS = ''success''"

text \<open>
  Modelled from the spec: the terminal status \<^verbatim>\<open>ERROR\<close> of \<^verbatim>\<open>TaskStatus\<close>
  (missing), spelt \<^verbatim>\<open>'error'\<close> in the comments of \<^verbatim>\<open>ResultsHandler.get\<close>.
\<close>

definition TaskStatus_ERROR :: string where
  "TaskStatus_ERROR = ''error''"



section \<open>Collaborators and the handler state\<close>

text \<open>
  The modules behind \<^verbatim>\<open>redis\<close>, \<^verbatim>\<open>TaskCrud\<close>, \<^verbatim>\<open>TaskSpawner\<close>,
  \<^verbatim>\<open>publisher\<close>, \<^verbatim>\<open>TaskItem\<close> and \<^verbatim>\<open>ServerResponse\<close> are not part of
  \<^verbatim>\<open>src/server.py\<close>, and the JSON functions and \<^verbatim>\<open>int\<close> are Python's. The handlers
  take them as parameters: each collaborator call acts on a world \<open>'w\<close> (database, cache,
  queue, the task objects) and either returns or raises; each library function is pure and
  either returns or raises. \<open>'t\<close> is the task object made by \<^verbatim>\<open>TaskItem()\<close>.
\<close>

type_synonym ('a, 'w) collab = "'w \<Rightarrow> (exn + 'a) \<times> 'w"

record ('w, 't) collaborators =
  redis_get :: "string option \<Rightarrow> (string option, 'w) collab"
  redis_set :: "string option \<Rightarrow> string \<Rightarrow> (unit, 'w) collab"
  TaskItem :: "('t, 'w) collab"
  task_as_json :: "'t \<Rightarrow> (pyval, 'w) collab"
  TaskCrud_create_task :: "'t \<Rightarrow> (unit, 'w) collab"
  TaskCrud_get_task :: "string option \<Rightarrow> (pyval, 'w) collab"
  TaskCrud_get_tasks :: "int option \<Rightarrow> (pyval, 'w) collab"
  TaskCrud_get_results :: "string option \<Rightarrow> (pyval, 'w) collab"
  TaskSpawner_run_task :: "'t \<Rightarrow> pyval \<Rightarrow> (unit, 'w) collab"
  publisher_publish_task :: "'t \<Rightarrow> pyval \<Rightarrow> (unit, 'w) collab"
  server_response_error :: "string \<Rightarrow> string"
  json_decode :: "string \<Rightarrow> exn + pyval"
  json_encode :: "pyval \<Rightarrow> exn + string"
  dumps :: "pyval \<Rightarrow> exn + string"
  py_int :: "string \<Rightarrow> exn + int"

text \<open>
  The calls a handler makes on its collaborators, in the order it makes them: the record a
  mock of the collaborators would keep.
\<close>

datatype 't call =
    RedisGet "string option"
  | RedisSet "string option" string
  | NewTaskItem
  | AsJson 't
  | CreateTask 't
  | GetTask "string option"
  | GetTasks "int option"
  | GetResults "string option"
  | RunTask 't pyval
  | PublishTask 't pyval

text \<open>
  What a handler can change: the world of the collaborators, the status code of the
  response (Tornado starts it at 200), the chunks written to the response, the lines
  logged, and the calls made.
\<close>

record ('w, 't) hstate =
  world :: 'w
  status_code :: nat
  written :: "string list"
  logged :: "string list"
  calls :: "'t call list"

definition start :: "'w \<Rightarrow> ('w, 't) hstate" where
  "start w = \<lparr>world = w, status_code = 200, written = [], logged = [], calls = []\<rparr>"

text \<open>A later request on the same server: a new response, the same world, log and calls.\<close>

definition next_request :: "('w, 't) hstate \<Rightarrow> ('w, 't) hstate" where
  "next_request s = s\<lparr>status_code := 200, written := []\<rparr>"

text \<open>
  The body of a \<^verbatim>\<open>try\<close> block: a computation on the handler state that returns a value
  or raises, the state changes made before the exception staying in place.
\<close>

type_synonym ('a, 'w, 't) attempt = "('w, 't) hstate \<Rightarrow> (exn + 'a) \<times> ('w, 't) hstate"

definition ret :: "'a \<Rightarrow> ('a, 'w, 't) attempt" where
  "ret x = (\<lambda>s. (Inr x, s))"

definition and_then :: "('a, 'w, 't) attempt \<Rightarrow> ('a \<Rightarrow> ('b, 'w, 't) attempt) \<Rightarrow> ('b, 'w, 't) attempt" where
  "and_then m f = (\<lambda>s. case m s of (Inl e, s') \<Rightarrow> (Inl e, s') | (Inr x, s') \<Rightarrow> f x s')"

definition invoke :: "'t call \<Rightarrow> ('a, 'w) collab \<Rightarrow> ('a, 'w, 't) attempt" where
  "invoke c f = (\<lambda>s. case f (world s) of
                      (r, w') \<Rightarrow> (r, s\<lparr>world := w', calls := calls s @ [c]\<rparr>))"

definition pure_call :: "exn + 'a \<Rightarrow> ('a, 'w, 't) attempt" where
  "pure_call r = (\<lambda>s. (r, s))"

definition logger_info :: "string \<Rightarrow> (unit, 'w, 't) attempt" where
  "logger_info msg = (\<lambda>s. (Inr (), s\<lparr>logged := logged s @ [msg]\<rparr>))"

definition self_write :: "string \<Rightarrow> (unit, 'w, 't) attempt" where
  "self_write chunk = (\<lambda>s. (Inr (), s\<lparr>written := written s @ [chunk]\<rparr>))"

text \<open>\<^verbatim>\<open>BaseHandler.error\<close>: status 500 and the error envelope of the message.\<close>

definition self_error :: "('w, 't) collaborators \<Rightarrow> string \<Rightarrow> (unit, 'w, 't) attempt" where
  "self_error d msg = (\<lambda>s. (Inr (), s\<lparr>status_code := 500,
                                   written := written s @ [server_response_error d msg]\<rparr>))"

text \<open>
  \<^verbatim>\<open>try: ... except Exception as e: return self.error(msg=f"<prefix>{str(e)}")\<close>:
  an exception of the body ends the handler with the error response; a body that returns
  hands its value to the code after the \<^verbatim>\<open>try\<close> statement.
\<close>

definition try_except ::
  "('w, 't) collaborators \<Rightarrow> string \<Rightarrow> ('a, 'w, 't) attempt \<Rightarrow>
   ('a \<Rightarrow> ('w, 't) hstate \<Rightarrow> ('w, 't) hstate) \<Rightarrow> ('w, 't) hstate \<Rightarrow> ('w, 't) hstate" where
  "try_except d prefix m after s =
     (case m s of
        (Inl e, s') \<Rightarrow> snd (self_error d (prefix @ exn_str e) s')
      | (Inr x, s') \<Rightarrow> after x s')"

text \<open>
  An exception that leaves the handler. The only one the handlers let through is the
  \<^verbatim>\<open>HTTPError(400)\<close> of \<^verbatim>\<open>get_argument\<close>, which Tornado answers with
  \<^verbatim>\<open>send_error(400)\<close>: what was written is discarded, the status is 400 and the
  default error page of \<^verbatim>\<open>write_error\<close> is written.
\<close>

definition send_error_400 :: "('w, 't) hstate \<Rightarrow> ('w, 't) hstate" where
  "send_error_400 s =
     s\<lparr>status_code := 400,
       written := [''<html><title>400: Bad Request</title>''
                   @ ''<body>400: Bad Request</body></html>'']\<rparr>"

section \<open>ResultsHandler.get\<close>

text \<open>
  Lines 176 to 197 of \<^verbatim>\<open>src/server.py\<close>: the body of the \<^verbatim>\<open>try\<close> block, each
  \<^verbatim>\<open>return\<close> ending it, and the handler around it. \<^verbatim>\<open>get_argument\<close> is called
  inside the block.
\<close>

definition ResultsHandler_get_body ::
  "('w, 't) collaborators \<Rightarrow> request \<Rightarrow> (unit, 'w, 't) attempt" where
  "ResultsHandler_get_body d req =
     and_then (pure_call (get_argument req ''task_id'' None)) (\<lambda>task_id.
     and_then (invoke (RedisGet task_id) (redis_get d task_id)) (\<lambda>redis_cache.
       if truthy redis_cache then
         and_then (logger_info (''Redis cache is available, task '' @ [CHR 0x27]
                            @ py_str task_id @ [CHR 0x27])) (\<lambda>_.
         self_write (the redis_cache))
       else
         and_then (invoke (GetResults task_id) (TaskCrud_get_results d task_id)) (\<lambda>db_results.
         and_then (pure_call (dumps d db_results)) (\<lambda>json_results.
         and_then (pure_call (py_get db_results ''task'' (PyDict []))) (\<lambda>task.
         and_then (pure_call (py_get task ''status'' (PyStr ''''))) (\<lambda>status.
           if status = PyStr TaskStatus_PENDING then
             and_then (logger_info (''Status of the task '' @ [CHR 0x27] @ py_str task_id
                                @ [CHR 0x27] @ '' is '' @ [CHR 0x27] @ TaskStatus_PENDING
                                @ [CHR 0x27] @ '', skip Redis cache saving'')) (\<lambda>_.
             self_write json_results)
           else
             and_then (invoke (RedisSet task_id json_results)
                          (redis_set d task_id json_results)) (\<lambda>_.
             and_then (logger_info (''Save results to Redis cache, task '' @ [CHR 0x27]
                                @ py_str task_id @ [CHR 0x27])) (\<lambda>_.
             self_write json_results))))))))"

definition ResultsHandler_get ::
  "('w, 't) collaborators \<Rightarrow> request \<Rightarrow> ('w, 't) hstate \<Rightarrow> ('w, 't) hstate" where
  "ResultsHandler_get d req =
     try_except d ''Unexpected error at getting results: '' (ResultsHandler_get_body d req)
       (\<lambda>_ s. s)"

section \<open>CreateTaskHandler.post\<close>

text \<open>
  Lines 95 to 114 of \<^verbatim>\<open>src/server.py\<close>.
  The body of the \<^verbatim>\<open>try\<close> block returns the response to write after it, or
  \<^verbatim>\<open>None\<close> where the handler has returned from inside the block (the unsupported
  \<^verbatim>\<open>type\<close>). \<^verbatim>\<open>get_argument\<close> is called before the block, so its exception
  leaves the handler.
\<close>

definition CreateTaskHandler_post_body ::
  "('w, 't) collaborators \<Rightarrow> request \<Rightarrow> string option \<Rightarrow> (string option, 'w, 't) attempt" where
  "CreateTaskHandler_post_body d req execution_type =
     and_then (pure_call (json_decode d (body req))) (\<lambda>decoded.
     and_then (invoke NewTaskItem (TaskItem d)) (\<lambda>task.
     and_then (invoke (CreateTask task) (TaskCrud_create_task d task)) (\<lambda>_.
       (let respond =
              and_then (invoke (AsJson task) (task_as_json d task)) (\<lambda>as_json.
              and_then (pure_call (json_encode d as_json)) (\<lambda>response.
              ret (Some response)))
        in
        if execution_type = Some ''process'' then
          and_then (invoke (RunTask task decoded) (TaskSpawner_run_task d task decoded))
            (\<lambda>_. respond)
        else if execution_type = Some ''queue'' then
          and_then (invoke (PublishTask task decoded) (publisher_publish_task d task decoded))
            (\<lambda>_. respond)
        else
          and_then (self_error d
                      (''Unsupported value for parameter '' @ [CHR 0x27] @ ''type'' @ [CHR 0x27]
                       @ '': '' @ py_str execution_type @ ''. Supported values: ''
                       @ [CHR 0x27] @ ''queue'' @ [CHR 0x27] @ '', ''
                       @ [CHR 0x27] @ ''process'' @ [CHR 0x27]))
            (\<lambda>_. ret None)))))"

definition CreateTaskHandler_post ::
  "('w, 't) collaborators \<Rightarrow> request \<Rightarrow> ('w, 't) hstate \<Rightarrow> ('w, 't) hstate" where
  "CreateTaskHandler_post d req s =
     (case get_argument req ''type'' (Some ''queue'') of
        Inl e \<Rightarrow> send_error_400 s
      | Inr execution_type \<Rightarrow>
          try_except d ''Unexpected error at task creating: ''
            (CreateTaskHandler_post_body d req execution_type)
            (\<lambda>response s. case response of
                             None \<Rightarrow> s
                           | Some r \<Rightarrow> snd (self_write r s)) s)"

section \<open>ListTaskHandler.get\<close>

text \<open>
  Lines 150 to 163 of \<^verbatim>\<open>src/server.py\<close>. Both arguments are read before the
  \<^verbatim>\<open>try\<close> block. The conditional expressions test the truth of \<^verbatim>\<open>task_id\<close>
  and of \<^verbatim>\<open>limit\<close> before anything is looked up or converted; the body of the block
  returns the serialised tasks, which the handler writes after it.
\<close>

definition ListTaskHandler_get_body ::
  "('w, 't) collaborators \<Rightarrow> string option \<Rightarrow> string option \<Rightarrow> (string, 'w, 't) attempt" where
  "ListTaskHandler_get_body d task_id limit =
     and_then
       (if truthy task_id then invoke (GetTask task_id) (TaskCrud_get_task d task_id)
        else
          and_then (if truthy limit
                    then and_then (pure_call (py_int d (the limit))) (\<lambda>n. ret (Some n))
                    else ret None) (\<lambda>n.
          invoke (GetTasks n) (TaskCrud_get_tasks d n)))
       (\<lambda>found. pure_call (dumps d found))"

definition ListTaskHandler_get ::
  "('w, 't) collaborators \<Rightarrow> request \<Rightarrow> ('w, 't) hstate \<Rightarrow> ('w, 't) hstate" where
  "ListTaskHandler_get d req s =
     (case get_argument req ''task_id'' None of
        Inl e \<Rightarrow> send_error_400 s
      | Inr task_id \<Rightarrow>
          (case get_argument req ''limit'' None of
             Inl e \<Rightarrow> send_error_400 s
           | Inr limit \<Rightarrow>
               try_except d ''Unexpected error at tasks listing: ''
                 (ListTaskHandler_get_body d task_id limit)
                 (\<lambda>tasks s. snd (self_write tasks s)) s))"

section \<open>Python's JSON encoder\<close>

text \<open>
  \<^verbatim>\<open>json.dumps\<close> on the values of the model, with its default separators and
  \<^verbatim>\<open>ensure_ascii\<close>; a character is its code point below 256.
\<close>

definition json_escape_char :: "char \<Rightarrow> string" where
  "json_escape_char c =
     (if c = CHR 0x22 then [CHR 0x5C, CHR 0x22]
      else if c = CHR 0x5C then [CHR 0x5C, CHR 0x5C]
      else if c = CHR 0x0A then [CHR 0x5C, CHR ''n'']
      else if c = CHR 0x0D then [CHR 0x5C, CHR ''r'']
      else if c = CHR 0x09 then [CHR 0x5C, CHR ''t'']
      else if c = CHR 0x08 then [CHR 0x5C, CHR ''b'']
      else if c = CHR 0x0C then [CHR 0x5C, CHR ''f'']
      else if (of_char c :: nat) < 0x20 \<or> 0x7E < (of_char c :: nat)
      then [CHR 0x5C, CHR ''u'', CHR ''0'', CHR ''0'',
            hex_digit (of_char c div 16), hex_digit (of_char c mod 16)]
      else [c])"

definition json_string :: "string \<Rightarrow> string" where
  "json_string s = [CHR 0x22] @ concat (map json_escape_char s) @ [CHR 0x22]"

fun decimal :: "nat \<Rightarrow> string" where
  "decimal n = (if n < 10 then [''0123456789'' ! n]
                else decimal (n div 10) @ [''0123456789'' ! (n mod 10)])"

definition json_int :: "int \<Rightarrow> string" where
  "json_int i = (if i < 0 then CHR ''-'' # decimal (nat (- i)) else decimal (nat i))"

fun join :: "string \<Rightarrow> string list \<Rightarrow> string" where
  "join sep [] = []"
| "join sep [x] = x"
| "join sep (x # y # ys) = x @ sep @ join sep (y # ys)"

fun py_dumps :: "pyval \<Rightarrow> string"
  and py_dumps_items :: "pyval list \<Rightarrow> string list"
  and py_dumps_pairs :: "(string \<times> pyval) list \<Rightarrow> string list" where
  "py_dumps PyNone = ''null''"
| "py_dumps (PyBool b) = (if b then ''true'' else ''false'')"
| "py_dumps (PyInt i) = json_int i"
| "py_dumps (PyStr s) = json_string s"
| "py_dumps (PyList xs) = ''['' @ join '', '' (py_dumps_items xs) @ '']''"
| "py_dumps (PyDict kvs) = ''{'' @ join '', '' (py_dumps_pairs kvs) @ ''}''"
| "py_dumps_items [] = []"
| "py_dumps_items (x # xs) = py_dumps x # py_dumps_items xs"
| "py_dumps_pairs [] = []"
| "py_dumps_pairs ((k, v) # kvs) = (json_string k @ '': '' @ py_dumps v) # py_dumps_pairs kvs"

text \<open>
  Tornado's \<^verbatim>\<open>json_encode\<close>: \<^verbatim>\<open>json.dumps(value).replace("</", "<\\/")\<close>.
\<close>

fun escape_slash :: "string \<Rightarrow> string" where
  "escape_slash (a # b # cs) =
     (if a = CHR ''<'' \<and> b = CHR ''/'' then [CHR ''<'', CHR 0x5C, CHR ''/''] @ escape_slash cs
      else a # escape_slash (b # cs))"
| "escape_slash cs = cs"

definition tornado_json_encode :: "pyval \<Rightarrow> string" where
  "tornado_json_encode v = escape_slash (py_dumps v)"

section \<open>The collaborators after the spec\<close>

text \<open>
  Modelled from the spec: the operations of the collaborators, none of which is in
  \<^verbatim>\<open>src/server.py\<close>; each may fail with an exception of its own.
\<close>

datatype op =
    Op_redis_get | Op_redis_set | Op_TaskItem | Op_as_json | Op_create_task
  | Op_get_task | Op_get_tasks | Op_get_results | Op_run_task | Op_publish_task

text \<open>
  Modelled from the spec: the world of the collaborators, which are missing from the
  sources: a Task Record Store keyed by task identifier, a Result Cache keyed by whatever
  key it is given, a Work Queue, a source of new identifiers, an executor whose outcome
  depends on the payload, and, for each operation, the exception it raises while it is out
  of order (\<open>None\<close>: it works).
\<close>

record world =
  store :: "(string \<times> pyval) list"
  cache :: "string option \<rightharpoonup> string"
  queue :: "(string \<times> pyval) list"
  uuid_source :: "nat \<Rightarrow> string"
  uuid_count :: nat
  executor_ok :: "pyval \<Rightarrow> bool"
  faults :: "op \<rightharpoonup> exn"

text \<open>
  Modelled from the spec: an operation that is out of order raises its exception and
  leaves the world as it is.
\<close>

definition guarded :: "op \<Rightarrow> ('a, world) collab \<Rightarrow> ('a, world) collab" where
  "guarded p f w = (case faults w p of Some e \<Rightarrow> (Inl e, w) | None \<Rightarrow> f w)"

text \<open>
  Modelled from the spec: the record of a task as \<^verbatim>\<open>TaskCrud.get_results\<close> (missing
  from the sources) returns it, a dictionary whose \<^verbatim>\<open>task\<close> entry carries the identity
  and the status, which is where \<^verbatim>\<open>ResultsHandler.get\<close> looks for the status.
\<close>

definition task_view :: "string \<Rightarrow> string \<Rightarrow> pyval" where
  "task_view i st = PyDict [(''task'', PyDict [(''task_id'', PyStr i), (''status'', PyStr st)])]"

text \<open>
  Modelled from the spec: the lookup of the Result Cache behind \<^verbatim>\<open>redis\<close>
  (\<^verbatim>\<open>src/cache/redis.py\<close> is missing), \<^verbatim>\<open>get(id) -> value | miss\<close>.
\<close>

definition spec_redis_get :: "string option \<Rightarrow> (string option, world) collab" where
  "spec_redis_get k = guarded Op_redis_get (\<lambda>w. (Inr (cache w k), w))"

text \<open>
  Modelled from the spec: the write of the Result Cache behind \<^verbatim>\<open>redis\<close>
  (\<^verbatim>\<open>src/cache/redis.py\<close> is missing), \<^verbatim>\<open>set(id, value) -> ok\<close>.
\<close>

definition spec_redis_set :: "string option \<Rightarrow> string \<Rightarrow> (unit, world) collab" where
  "spec_redis_set k v = guarded Op_redis_set (\<lambda>w. (Inr (), w\<lparr>cache := (cache w)(k \<mapsto> v)\<rparr>))"

text \<open>
  Modelled from the spec: \<^verbatim>\<open>TaskItem()\<close> (\<^verbatim>\<open>src/server/structures/task.py\<close> is
  missing) allocates a new task identity.
\<close>

definition spec_TaskItem :: "(string, world) collab" where
  "spec_TaskItem =
     guarded Op_TaskItem
       (\<lambda>w. (Inr (uuid_source w (uuid_count w)), w\<lparr>uuid_count := Suc (uuid_count w)\<rparr>))"

text \<open>
  Modelled from the spec: \<^verbatim>\<open>TaskItem.as_json\<close> (missing) gives what the creation
  returns to the caller, the identity and the initial status of the task.
\<close>

definition spec_task_as_json :: "string \<Rightarrow> (pyval, world) collab" where
  "spec_task_as_json t =
     guarded Op_as_json
       (\<lambda>w. (Inr (PyDict [(''task_id'', PyStr t), (''status'', PyStr TaskStatus_PENDING)]), w))"

text \<open>
  Modelled from the spec: the signal \<^verbatim>\<open>TaskNotFoundError\<close> of a read for an identifier
  without a record; no exception of that name is in the sources, and its text is taken to
  be the identifier.
\<close>

definition TaskNotFoundError :: "string option \<Rightarrow> exn" where
  "TaskNotFoundError k = Exn ''TaskNotFoundError'' (py_str k)"

text \<open>
  Modelled from the spec: \<^verbatim>\<open>TaskCrud.create_task\<close> (\<^verbatim>\<open>src/db/crud.py\<close> is
  missing) persists an initial \<^verbatim>\<open>PENDING\<close> record in the Task Record Store, which
  enforces the uniqueness of identifiers.
\<close>

definition spec_create_task :: "string \<Rightarrow> (unit, world) collab" where
  "spec_create_task t =
     guarded Op_create_task
       (\<lambda>w. if t \<in> fst ` set (store w) then (Inl (Exn ''IntegrityError'' t), w)
            else (Inr (), w\<lparr>store := store w @ [(t, task_view t TaskStatus_PENDING)]\<rparr>))"

text \<open>
  Modelled from the spec: \<^verbatim>\<open>TaskCrud.get_task\<close> and \<^verbatim>\<open>TaskCrud.get_results\<close>
  (\<^verbatim>\<open>src/db/crud.py\<close> is missing) read the record of an identifier,
  \<^verbatim>\<open>getTask(id) -> record | NotFound\<close>.
\<close>

definition spec_get_record :: "op \<Rightarrow> string option \<Rightarrow> (pyval, world) collab" where
  "spec_get_record p k =
     guarded p
       (\<lambda>w. case k of
              None \<Rightarrow> (Inl (TaskNotFoundError k), w)
            | Some i \<Rightarrow> (case map_of (store w) i of
                           None \<Rightarrow> (Inl (TaskNotFoundError k), w)
                         | Some r \<Rightarrow> (Inr r, w)))"

text \<open>
  Modelled from the spec: \<^verbatim>\<open>TaskCrud.get_tasks\<close> (\<^verbatim>\<open>src/db/crud.py\<close> is missing)
  returns a listing bounded by an optional count limit.
\<close>

definition spec_get_tasks :: "int option \<Rightarrow> (pyval, world) collab" where
  "spec_get_tasks n =
     guarded Op_get_tasks
       (\<lambda>w. (Inr (PyList (case n of
                            None \<Rightarrow> map snd (store w)
                          | Some l \<Rightarrow> take (nat l) (map snd (store w)))), w))"

text \<open>
  Modelled from the spec: the synchronous executor behind \<^verbatim>\<open>TaskSpawner.run_task\<close>
  (missing) performs the terminal transition of the record before it returns,
  \<^verbatim>\<open>SUCCESS\<close> when the work succeeds and \<^verbatim>\<open>ERROR\<close> when it fails.
\<close>

definition spec_run_task :: "string \<Rightarrow> pyval \<Rightarrow> (unit, world) collab" where
  "spec_run_task t payload =
     guarded Op_run_task
       (\<lambda>w. (Inr (), w\<lparr>store :=
                 map (\<lambda>(i, r). if i = t
                               then (i, task_view t (if executor_ok w payload
                                                     then TaskStatus_SUCCESS
                                                     else TaskStatus_ERROR))
                               else (i, r)) (store w)\<rparr>))"

text \<open>
  Modelled from the spec: the Work Queue behind \<^verbatim>\<open>publisher.publish_task\<close>
  (\<^verbatim>\<open>src/queue/publisher.py\<close> is missing) takes the identity and the payload.
\<close>

definition spec_publish_task :: "string \<Rightarrow> pyval \<Rightarrow> (unit, world) collab" where
  "spec_publish_task t payload =
     guarded Op_publish_task (\<lambda>w. (Inr (), w\<lparr>queue := queue w @ [(t, payload)]\<rparr>))"

text \<open>
  Modelled from the spec: the error envelope of \<^verbatim>\<open>ServerResponse.error\<close>
  (\<^verbatim>\<open>src/server/structures/response.py\<close> is missing), a uniform envelope that carries
  the human-readable message.
\<close>

definition spec_server_response_error :: "string \<Rightarrow> string" where
  "spec_server_response_error msg =
     py_dumps (PyDict [(''status'', PyStr ''error''), (''msg'', PyStr msg)])"

text \<open>
  Modelled from the spec: the collaborators of the handlers in that world, all missing from
  the sources. The JSON decoder and \<^verbatim>\<open>int\<close> stay parameters; the encoders are the
  ones above, which do not raise on the values of the model.
\<close>

definition spec_collaborators ::
  "(string \<Rightarrow> exn + pyval) \<Rightarrow> (string \<Rightarrow> exn + int) \<Rightarrow> (world, string) collaborators" where
  "spec_collaborators decode to_int =
     \<lparr>redis_get = spec_redis_get,
      redis_set = spec_redis_set,
      TaskItem = spec_TaskItem,
      task_as_json = spec_task_as_json,
      TaskCrud_create_task = spec_create_task,
      TaskCrud_get_task = spec_get_record Op_get_task,
      TaskCrud_get_tasks = spec_get_tasks,
      TaskCrud_get_results = spec_get_record Op_get_results,
      TaskSpawner_run_task = spec_run_task,
      publisher_publish_task = spec_publish_task,
      server_response_error = spec_server_response_error,
      json_decode = decode,
      json_encode = (\<lambda>v. Inr (tornado_json_encode v)),
      dumps = (\<lambda>v. Inr (py_dumps v)),
      py_int = to_int\<rparr>"

subsection \<open>Sample runs\<close>

text \<open>
  The library functions of the sample runs. The decoder knows the two documents the sample
  requests post and answers every other body as Python answers \<^verbatim>\<open>not json\<close>; the
  integer reader takes an optional sign and decimal digits, without the surrounding blanks
  and the underscores that Python's \<^verbatim>\<open>int\<close> also accepts.
\<close>

definition sample_json_decode :: "string \<Rightarrow> exn + pyval" where
  "sample_json_decode s =
     (if s = ''{}'' then Inr (PyDict [])
      else if s = ''[]'' then Inr (PyList [])
      else Inl (Exn ''JSONDecodeError'' ''Expecting value: line 1 column 1 (char 0)''))"

definition digit_value :: "char \<Rightarrow> nat" where
  "digit_value c = of_char c - 48"

definition is_digit :: "char \<Rightarrow> bool" where
  "is_digit c = (48 \<le> (of_char c :: nat) \<and> (of_char c :: nat) \<le> 57)"

definition sample_int :: "string \<Rightarrow> exn + int" where
  "sample_int s =
     (let negative = (s \<noteq> [] \<and> hd s = CHR ''-'');
          ds = (if s \<noteq> [] \<and> (hd s = CHR ''-'' \<or> hd s = CHR ''+'') then tl s else s)
      in if ds \<noteq> [] \<and> list_all is_digit ds
         then Inr ((if negative then - 1 else 1)
                   * int (foldl (\<lambda>a c. 10 * a + digit_value c) 0 ds))
         else Inl (Exn ''ValueError''
                    (''invalid literal for int() with base 10: ''
                     @ [CHR 0x27] @ s @ [CHR 0x27])))"

definition sample_collaborators :: "(world, string) collaborators" where
  "sample_collaborators = spec_collaborators sample_json_decode sample_int"

text \<open>
  The sample world: one finished task \<^verbatim>\<open>T1\<close>, one pending task \<^verbatim>\<open>T2\<close>, an
  empty cache and queue, every operation in order.
\<close>

definition sample_world :: world where
  "sample_world =
     \<lparr>store = [(''T1'', task_view ''T1'' TaskStatus_SUCCESS),
               (''T2'', task_view ''T2'' TaskStatus_PENDING)],
      cache = Map.empty,
      queue = [],
      uuid_source = (\<lambda>n. ''N'' @ decimal n),
      uuid_count = 0,
      executor_ok = (\<lambda>payload. payload = PyDict []),
      faults = Map.empty\<rparr>"

text \<open>
  A request whose query string carries the given names and decoded values, in that order,
  and the given body.
\<close>

definition query :: "(string \<times> string) list \<Rightarrow> string \<Rightarrow> request" where
  "query args b =
     \<lparr>arguments = (\<lambda>name. map (\<lambda>p. Text (snd p)) (filter (\<lambda>p. fst p = name) args)),
      body = b\<rparr>"

text \<open>The sample world with the cache refusing writes, and with the database down.\<close>

definition cache_write_down :: world where
  "cache_write_down =
     sample_world\<lparr>faults := [Op_redis_set \<mapsto> Exn ''ConnectionError'' ''Connection refused'']\<rparr>"

definition database_down :: world where
  "database_down =
     sample_world\<lparr>faults := [Op_get_results \<mapsto> Exn ''OperationalError'' ''T9'']\<rparr>"

text \<open>The sample world with an empty string cached for the pending task \<^verbatim>\<open>T2\<close>.\<close>

definition empty_entry_cached :: world where
  "empty_entry_cached = sample_world\<lparr>cache := [Some ''T2'' \<mapsto> []]\<rparr>"

text \<open>\<open>n\<close> further result queries on the same server, each with a new response.\<close>

definition query_again ::
  "('w, 't) collaborators \<Rightarrow> request \<Rightarrow> nat \<Rightarrow> ('w, 't) hstate \<Rightarrow> ('w, 't) hstate" where
  "query_again d req n = ((\<lambda>s. ResultsHandler_get d req (next_request s)) ^^ n)"

section \<open>Helper lemmas\<close>

lemmas run_defs = and_then_def invoke_def pure_call_def logger_info_def self_write_def
  self_error_def ret_def try_except_def

lemmas results_defs = ResultsHandler_get_def ResultsHandler_get_body_def run_defs Let_def

lemmas argument_defs = get_argument_def query_def decode_argument_def strip_def
  remove_control_chars_def is_space_def

lemmas sample_results_defs = results_defs sample_collaborators_def spec_collaborators_def
  spec_redis_get_def spec_redis_set_def spec_get_record_def guarded_def start_def
  sample_world_def

lemma decimal_nonempty: "decimal n \<noteq> []"
  by (induction n rule: decimal.induct) (simp split: if_splits)

lemma py_dumps_nonempty: "py_dumps v \<noteq> []"
  by (cases v) (simp_all add: json_int_def json_string_def decimal_nonempty del: decimal.simps)

lemma sample_T1: "get_argument (query [(''task_id'', ''T1'')] []) ''task_id'' None = Inr (Some ''T1'')"
  by (simp add: argument_defs)

lemma sample_T2: "get_argument (query [(''task_id'', ''T2'')] []) ''task_id'' None = Inr (Some ''T2'')"
  by (simp add: argument_defs)

lemma sample_T9: "get_argument (query [(''task_id'', ''T9'')] []) ''task_id'' None = Inr (Some ''T9'')"
  by (simp add: argument_defs)

section \<open>Properties of the result query\<close>

text \<open>
  C1 (as amended). A result query that reaches the terminal-status branch (the argument
  is read, the cache returns nothing truthy, the record is found and serialised, its
  status is \<^verbatim>\<open>SUCCESS\<close> or \<^verbatim>\<open>ERROR\<close>) calls \<^verbatim>\<open>redis.set\<close> inside the
  handler's \<^verbatim>\<open>try\<close> block. When the write raises, the handler answers with status
  500 and the error envelope of the exception's text, and logs nothing; when the write
  returns, it answers with the serialised result, the status code untouched, and logs the
  save.
\<close>

theorem results_cache_write_outcome:
  assumes "get_argument req ''task_id'' None = Inr k"
    and "redis_get d k (world s) = (Inr c, w1)"
    and "\<not> truthy c"
    and "TaskCrud_get_results d k w1 = (Inr r, w2)"
    and "dumps d r = Inr j"
    and "py_get r ''task'' (PyDict []) = Inr t"
    and "py_get t ''status'' (PyStr []) = Inr (PyStr st)"
    and "st = TaskStatus_SUCCESS \<or> st = TaskStatus_ERROR"
    and "redis_set d k j w2 = (out, w3)"
  shows "ResultsHandler_get d req s =
     (case out of
        Inl e \<Rightarrow>
          s\<lparr>world := w3,
            calls := calls s @ [RedisGet k,
                                GetResults k,
                                RedisSet k j],
            status_code := 500,
            written := written s @ [server_response_error d
                         (''Unexpected error at getting results: '' @ exn_str e)]\<rparr>
      | Inr u \<Rightarrow>
          s\<lparr>world := w3,
            calls := calls s @ [RedisGet k,
                                GetResults k,
                                RedisSet k j],
            logged := logged s @ [''Save results to Redis cache, task '' @ [CHR 0x27]
                         @ py_str k @ [CHR 0x27]],
            written := written s @ [j]\<rparr>)"
proof -
  have "st \<noteq> TaskStatus_PENDING"
    using assms(8)
    by (auto simp: TaskStatus_PENDING_def TaskStatus_SUCCESS_def TaskStatus_ERROR_def)
  then show ?thesis
    using assms(1-7,9) by (cases out) (simp_all add: results_defs)
qed

text \<open>
  The theorem at the finished task \<^verbatim>\<open>T1\<close> of the sample world, the cache refusing
  writes.
\<close>

theorem results_cache_write_outcome_witness:
  "get_argument (query [(''task_id'', ''T1'')] []) ''task_id'' None = Inr (Some ''T1'')
   \<and> redis_get sample_collaborators (Some ''T1'')
       (world (start cache_write_down :: (world, string) hstate)) = (Inr None, cache_write_down)
   \<and> \<not> truthy None
   \<and> redis_set sample_collaborators (Some ''T1'') (py_dumps (task_view ''T1'' TaskStatus_SUCCESS))
       cache_write_down = (Inl (Exn ''ConnectionError'' ''Connection refused''), cache_write_down)
   \<and> ResultsHandler_get sample_collaborators (query [(''task_id'', ''T1'')] [])
       (start cache_write_down)
     = (start cache_write_down)
         \<lparr>calls := [RedisGet (Some ''T1''), GetResults (Some ''T1''),
                    RedisSet (Some ''T1'') (py_dumps (task_view ''T1'' TaskStatus_SUCCESS))],
          status_code := 500,
          written := [spec_server_response_error
                        ''Unexpected error at getting results: Connection refused'']\<rparr>"
proof -
  let ?d = sample_collaborators
  let ?req = "query [(''task_id'', ''T1'')] []"
  let ?s = "start cache_write_down :: (world, string) hstate"
  let ?r = "task_view ''T1'' TaskStatus_SUCCESS"
  have h0: "get_argument ?req ''task_id'' None = Inr (Some ''T1'')"
    by (rule sample_T1)
  have h1: "redis_get ?d (Some ''T1'') (world ?s) = (Inr None, cache_write_down)"
    by (simp add: sample_collaborators_def spec_collaborators_def spec_redis_get_def guarded_def
        start_def cache_write_down_def sample_world_def)
  have h2: "\<not> truthy None" by simp
  have h3: "TaskCrud_get_results ?d (Some ''T1'') cache_write_down = (Inr ?r, cache_write_down)"
    by (simp add: sample_collaborators_def spec_collaborators_def spec_get_record_def guarded_def
        cache_write_down_def sample_world_def)
  have h4: "dumps ?d ?r = Inr (py_dumps ?r)"
    by (simp add: sample_collaborators_def spec_collaborators_def)
  have h5: "py_get ?r ''task'' (PyDict [])
            = Inr (PyDict [(''task_id'', PyStr ''T1''), (''status'', PyStr TaskStatus_SUCCESS)])"
    by (simp add: py_get_def task_view_def)
  have h6: "py_get (PyDict [(''task_id'', PyStr ''T1''), (''status'', PyStr TaskStatus_SUCCESS)])
              ''status'' (PyStr '''') = Inr (PyStr TaskStatus_SUCCESS)"
    by (simp add: py_get_def)
  have h7: "TaskStatus_SUCCESS = TaskStatus_SUCCESS \<or> TaskStatus_SUCCESS = TaskStatus_ERROR"
    by simp
  have h8: "redis_set ?d (Some ''T1'') (py_dumps ?r) cache_write_down
            = (Inl (Exn ''ConnectionError'' ''Connection refused''), cache_write_down)"
    by (simp add: sample_collaborators_def spec_collaborators_def spec_redis_set_def guarded_def
        cache_write_down_def)
  have e: "server_response_error ?d = spec_server_response_error"
    by (simp add: sample_collaborators_def spec_collaborators_def)
  have c: "ResultsHandler_get ?d ?req ?s
     = ?s\<lparr>calls := [RedisGet (Some ''T1''), GetResults (Some ''T1''),
                    RedisSet (Some ''T1'') (py_dumps ?r)],
          status_code := 500,
          written := [spec_server_response_error
                        ''Unexpected error at getting results: Connection refused'']\<rparr>"
    using results_cache_write_outcome [OF h0 h1 h2 h3 h4 h5 h6 h7 h8]
    by (simp add: start_def e)
  show ?thesis
    by (intro conjI) (rule h0 h1 h2 h8 c)+
qed

text \<open>
  C1 as stated fails: for the finished task \<^verbatim>\<open>T1\<close>, a cache that refuses the write
  turns the answer into status 500 with the error envelope, and nothing is logged, where
  the same query with a working cache answers 200 with the serialised result.
\<close>

theorem cache_write_failure_counterexample:
  "status_code (ResultsHandler_get sample_collaborators (query [(''task_id'', ''T1'')] [])
                  (start cache_write_down)) = 500
   \<and> written (ResultsHandler_get sample_collaborators (query [(''task_id'', ''T1'')] [])
                (start cache_write_down))
     = [spec_server_response_error ''Unexpected error at getting results: Connection refused'']
   \<and> logged (ResultsHandler_get sample_collaborators (query [(''task_id'', ''T1'')] [])
               (start cache_write_down)) = []
   \<and> status_code (ResultsHandler_get sample_collaborators (query [(''task_id'', ''T1'')] [])
                    (start sample_world)) = 200
   \<and> written (ResultsHandler_get sample_collaborators (query [(''task_id'', ''T1'')] [])
                (start sample_world))
     = [py_dumps (task_view ''T1'' TaskStatus_SUCCESS)]"
  by (simp add: results_defs sample_T1 sample_collaborators_def spec_collaborators_def
      spec_redis_get_def spec_redis_set_def spec_get_record_def guarded_def start_def
      cache_write_down_def sample_world_def py_get_def task_view_def
      TaskStatus_PENDING_def TaskStatus_SUCCESS_def)



text \<open>
  C3 (as amended). When the read of the record raises after a cache miss, whatever the
  exception (a \<^verbatim>\<open>TaskNotFoundError\<close> for a missing record among them), the query
  answers with status 500 and the error envelope
  \<^verbatim>\<open>Unexpected error at getting results: <text of the exception>\<close>, and the cache is
  not written.
\<close>

theorem store_failure_is_generic_error:
  assumes "get_argument req ''task_id'' None = Inr k"
    and "redis_get d k (world s) = (Inr c, w1)"
    and "\<not> truthy c"
    and "TaskCrud_get_results d k w1 = (Inl e, w2)"
  shows "ResultsHandler_get d req s =
           s\<lparr>world := w2,
             calls := calls s @ [RedisGet k, GetResults k],
             status_code := 500,
             written := written s @ [server_response_error d
                          (''Unexpected error at getting results: '' @ exn_str e)]\<rparr>"
  using assms by (simp add: results_defs)

text \<open>
  The theorem at \<^verbatim>\<open>T9\<close>, an identifier without a record in the sample world.
\<close>

theorem store_failure_is_generic_error_witness:
  "get_argument (query [(''task_id'', ''T9'')] []) ''task_id'' None = Inr (Some ''T9'')
   \<and> redis_get sample_collaborators (Some ''T9'')
       (world (start sample_world :: (world, string) hstate)) = (Inr None, sample_world)
   \<and> \<not> truthy None
   \<and> TaskCrud_get_results sample_collaborators (Some ''T9'') sample_world
     = (Inl (TaskNotFoundError (Some ''T9'')), sample_world)
   \<and> ResultsHandler_get sample_collaborators (query [(''task_id'', ''T9'')] []) (start sample_world)
     = (start sample_world)
         \<lparr>calls := [RedisGet (Some ''T9''), GetResults (Some ''T9'')],
          status_code := 500,
          written := [spec_server_response_error ''Unexpected error at getting results: T9'']\<rparr>"
proof -
  let ?d = sample_collaborators
  let ?req = "query [(''task_id'', ''T9'')] []"
  let ?s = "start sample_world :: (world, string) hstate"
  have h1: "redis_get ?d (Some ''T9'') (world ?s) = (Inr None, sample_world)"
    by (simp add: sample_collaborators_def spec_collaborators_def spec_redis_get_def guarded_def
        start_def sample_world_def)
  have h2: "\<not> truthy None" by simp
  have h3: "TaskCrud_get_results ?d (Some ''T9'') sample_world
            = (Inl (TaskNotFoundError (Some ''T9'')), sample_world)"
    by (simp add: sample_collaborators_def spec_collaborators_def spec_get_record_def guarded_def
        sample_world_def task_view_def)
  have e: "server_response_error ?d = spec_server_response_error"
    by (simp add: sample_collaborators_def spec_collaborators_def)
  have c: "ResultsHandler_get ?d ?req ?s
     = ?s\<lparr>calls := [RedisGet (Some ''T9''), GetResults (Some ''T9'')],
          status_code := 500,
          written := [spec_server_response_error ''Unexpected error at getting results: T9'']\<rparr>"
    using store_failure_is_generic_error [OF sample_T9 h1 h2 h3]
    by (simp add: start_def e TaskNotFoundError_def)
  show ?thesis
    by (intro conjI) (rule sample_T9 h1 h2 h3 c)+
qed

text \<open>
  C3 as stated fails: the answer to a query for the missing record \<^verbatim>\<open>T9\<close>, where the
  store signals \<^verbatim>\<open>TaskNotFoundError\<close>, has the status 500 of every failure and is, byte
  for byte, the answer given when the database is down with an exception of another class
  and the same text.
\<close>

theorem not_found_is_not_distinct_counterexample:
  "TaskCrud_get_results sample_collaborators (Some ''T9'') sample_world
     = (Inl (Exn ''TaskNotFoundError'' ''T9''), sample_world)
   \<and> TaskCrud_get_results sample_collaborators (Some ''T9'') database_down
     = (Inl (Exn ''OperationalError'' ''T9''), database_down)
   \<and> status_code (ResultsHandler_get sample_collaborators (query [(''task_id'', ''T9'')] [])
                    (start sample_world)) = 500
   \<and> status_code (ResultsHandler_get sample_collaborators (query [(''task_id'', ''T9'')] [])
                    (start database_down)) = 500
   \<and> written (ResultsHandler_get sample_collaborators (query [(''task_id'', ''T9'')] [])
                (start sample_world))
     = written (ResultsHandler_get sample_collaborators (query [(''task_id'', ''T9'')] [])
                 (start database_down))"
  by (simp add: sample_results_defs sample_T9 database_down_def task_view_def
      TaskNotFoundError_def)



lemma results_cache_hit:
  assumes "get_argument req ''task_id'' None = Inr k"
    and "redis_get d k (world s) = (Inr (Some v), w1)"
    and "v \<noteq> []"
  shows "ResultsHandler_get d req s =
           s\<lparr>world := w1,
             calls := calls s @ [RedisGet k],
             logged := logged s @ [''Redis cache is available, task '' @ [CHR 0x27]
                          @ py_str k @ [CHR 0x27]],
             written := written s @ [v]\<rparr>"
  using assms by (simp add: results_defs)

lemma spec_first_query:
  assumes "get_argument req ''task_id'' None = Inr (Some i)"
    and "faults w Op_redis_get = None"
    and "faults w Op_redis_set = None"
    and "faults w Op_get_results = None"
    and "cache w (Some i) = None \<or> cache w (Some i) = Some []"
    and "map_of (store w) i = Some r"
    and "py_get r ''task'' (PyDict []) = Inr t"
    and "py_get t ''status'' (PyStr []) = Inr (PyStr st)"
    and "st = TaskStatus_SUCCESS \<or> st = TaskStatus_ERROR"
  shows "ResultsHandler_get (spec_collaborators decode to_int) req (start w) =
           (start w)
             \<lparr>world := w\<lparr>cache := (cache w)(Some i \<mapsto> py_dumps r)\<rparr>,
              calls := [RedisGet (Some i), GetResults (Some i), RedisSet (Some i) (py_dumps r)],
              logged := [''Save results to Redis cache, task '' @ [CHR 0x27] @ i @ [CHR 0x27]],
              written := [py_dumps r]\<rparr>"
proof -
  have "st \<noteq> TaskStatus_PENDING"
    using assms(9)
    by (auto simp: TaskStatus_PENDING_def TaskStatus_SUCCESS_def TaskStatus_ERROR_def)
  then show ?thesis
    using assms(1-8)
    by (auto simp: results_defs spec_collaborators_def spec_redis_get_def spec_redis_set_def
        spec_get_record_def guarded_def start_def)
qed

lemma spec_later_queries:
  assumes "get_argument req ''task_id'' None = Inr (Some i)"
    and "faults w Op_redis_get = None"
    and "cache w (Some i) = Some v"
    and "v \<noteq> []"
    and that: "world s0 = w"
  shows "query_again (spec_collaborators decode to_int) req n s0
           = (if n = 0 then s0 else
               s0\<lparr>world := w, status_code := 200,
                   calls := calls s0 @ replicate n (RedisGet (Some i)),
                   logged := logged s0 @ replicate n (''Redis cache is available, task ''
                                @ [CHR 0x27] @ i @ [CHR 0x27]),
                   written := [v]\<rparr>)"
proof (induction n)
  case 0
  then show ?case by (simp add: query_again_def)
next
  case (Suc n)
  let ?d = "spec_collaborators decode to_int"
  let ?s = "next_request (query_again ?d req n s0)"
  have w: "world ?s = w"
    using Suc that by (simp add: next_request_def split: if_splits)
  have hit: "redis_get ?d (Some i) (world ?s) = (Inr (Some v), w)"
    using assms w
    by (simp add: spec_collaborators_def spec_redis_get_def guarded_def)
  have "query_again ?d req (Suc n) s0 = ResultsHandler_get ?d req ?s"
    by (simp add: query_again_def)
  also have "\<dots> = ?s\<lparr>world := w,
             calls := calls ?s @ [RedisGet (Some i)],
             logged := logged ?s @ [''Redis cache is available, task '' @ [CHR 0x27]
                          @ py_str (Some i) @ [CHR 0x27]],
             written := written ?s @ [v]\<rparr>"
    by (rule results_cache_hit [OF assms(1) hit assms(4)])
  finally show ?case
    using Suc that
    by (simp add: next_request_def replicate_append_same)
qed

text \<open>
  C4 (as amended). When \<^verbatim>\<open>redis.get\<close> returns a non-empty value for the queried
  identifier, the query writes that value to the response and does nothing else: the only
  call made is the cache lookup, so the store is not read and the cache is not rewritten.
  Hence, in the world of the spec with the cache and the store in order, for an identifier
  whose record is in a terminal status and is not cached yet, the first query reads the
  store once and populates the cache with the serialised record, and each of any number of
  later queries answers that value with the cache lookup as its only call.
\<close>

theorem truthy_cached_value_served_from_cache:
  fixes d :: "('w, 't) collaborators"
  shows
  "(\<forall>k v w1. get_argument req ''task_id'' None = Inr k
            \<and> redis_get d k (world s) = (Inr (Some v), w1)
            \<and> v \<noteq> [] \<longrightarrow>
      ResultsHandler_get d req s =
        s\<lparr>world := w1,
          calls := calls s @ [RedisGet k],
          logged := logged s @ [''Redis cache is available, task '' @ [CHR 0x27]
                       @ py_str k @ [CHR 0x27]],
          written := written s @ [v]\<rparr>)
   \<and> (\<forall>i w r t st n.
          get_argument req ''task_id'' None = Inr (Some i)
        \<and> faults w Op_redis_get = None \<and> faults w Op_redis_set = None
        \<and> faults w Op_get_results = None
        \<and> cache w (Some i) = None
        \<and> map_of (store w) i = Some r
        \<and> py_get r ''task'' (PyDict []) = Inr t
        \<and> py_get t ''status'' (PyStr []) = Inr (PyStr st)
        \<and> (st = TaskStatus_SUCCESS \<or> st = TaskStatus_ERROR) \<longrightarrow>
      query_again (spec_collaborators decode to_int) req n
        (ResultsHandler_get (spec_collaborators decode to_int) req (start w))
      = (start w)
          \<lparr>world := w\<lparr>cache := (cache w)(Some i \<mapsto> py_dumps r)\<rparr>,
           calls := [RedisGet (Some i), GetResults (Some i), RedisSet (Some i) (py_dumps r)]
                    @ replicate n (RedisGet (Some i)),
           logged := [''Save results to Redis cache, task '' @ [CHR 0x27] @ i @ [CHR 0x27]]
                     @ replicate n (''Redis cache is available, task ''
                                    @ [CHR 0x27] @ i @ [CHR 0x27]),
           written := [py_dumps r]\<rparr>)"
proof (intro conjI allI impI)
  fix k v w1
  assume "get_argument req ''task_id'' None = Inr k
          \<and> redis_get d k (world s) = (Inr (Some v), w1) \<and> v \<noteq> []"
  then show "ResultsHandler_get d req s =
        s\<lparr>world := w1,
          calls := calls s @ [RedisGet k],
          logged := logged s @ [''Redis cache is available, task '' @ [CHR 0x27]
                       @ py_str k @ [CHR 0x27]],
          written := written s @ [v]\<rparr>"
    by (intro results_cache_hit) simp_all
next
  fix i and w :: world and r t st n
  let ?d = "spec_collaborators decode to_int"
  let ?w' = "w\<lparr>cache := (cache w)(Some i \<mapsto> py_dumps r)\<rparr>"
  assume a: "get_argument req ''task_id'' None = Inr (Some i)
        \<and> faults w Op_redis_get = None \<and> faults w Op_redis_set = None
        \<and> faults w Op_get_results = None
        \<and> cache w (Some i) = None
        \<and> map_of (store w) i = Some r
        \<and> py_get r ''task'' (PyDict []) = Inr t
        \<and> py_get t ''status'' (PyStr []) = Inr (PyStr st)
        \<and> (st = TaskStatus_SUCCESS \<or> st = TaskStatus_ERROR)"
  then have first: "ResultsHandler_get ?d req (start w) =
           (start w)
             \<lparr>world := ?w',
              calls := [RedisGet (Some i), GetResults (Some i), RedisSet (Some i) (py_dumps r)],
              logged := [''Save results to Redis cache, task '' @ [CHR 0x27] @ i @ [CHR 0x27]],
              written := [py_dumps r]\<rparr>"
    by (intro spec_first_query [where t = t and st = st]) simp_all
  have later: "query_again ?d req n (ResultsHandler_get ?d req (start w))
           = (if n = 0 then ResultsHandler_get ?d req (start w) else
               (ResultsHandler_get ?d req (start w))
                 \<lparr>world := ?w', status_code := 200,
                  calls := calls (ResultsHandler_get ?d req (start w))
                           @ replicate n (RedisGet (Some i)),
                  logged := logged (ResultsHandler_get ?d req (start w))
                            @ replicate n (''Redis cache is available, task ''
                                @ [CHR 0x27] @ i @ [CHR 0x27]),
                  written := [py_dumps r]\<rparr>)"
  proof (rule spec_later_queries [where i = i and v = "py_dumps r"])
    show "get_argument req ''task_id'' None = Inr (Some i)" using a by simp
    show "faults ?w' Op_redis_get = None" using a by simp
    show "cache ?w' (Some i) = Some (py_dumps r)" by simp
    show "py_dumps r \<noteq> []" by (rule py_dumps_nonempty)
    show "world (ResultsHandler_get ?d req (start w)) = ?w'" by (simp add: first)
  qed
  show "query_again ?d req n (ResultsHandler_get ?d req (start w))
      = (start w)
          \<lparr>world := ?w',
           calls := [RedisGet (Some i), GetResults (Some i), RedisSet (Some i) (py_dumps r)]
                    @ replicate n (RedisGet (Some i)),
           logged := [''Save results to Redis cache, task '' @ [CHR 0x27] @ i @ [CHR 0x27]]
                     @ replicate n (''Redis cache is available, task ''
                                    @ [CHR 0x27] @ i @ [CHR 0x27]),
           written := [py_dumps r]\<rparr>"
    unfolding first later [unfolded first] by (cases "n = 0") (simp_all add: start_def)
qed

text \<open>
  The theorem at the finished task \<^verbatim>\<open>T1\<close> of the sample world: the first query and
  two more.
\<close>

theorem truthy_cached_value_served_from_cache_witness:
  "get_argument (query [(''task_id'', ''T1'')] []) ''task_id'' None = Inr (Some ''T1'')
   \<and> cache sample_world (Some ''T1'') = None
   \<and> map_of (store sample_world) ''T1'' = Some (task_view ''T1'' TaskStatus_SUCCESS)
   \<and> query_again sample_collaborators (query [(''task_id'', ''T1'')] []) 2
       (ResultsHandler_get sample_collaborators (query [(''task_id'', ''T1'')] [])
          (start sample_world))
     = (start sample_world)
         \<lparr>world := sample_world
             \<lparr>cache := [Some ''T1'' \<mapsto> py_dumps (task_view ''T1'' TaskStatus_SUCCESS)]\<rparr>,
          calls := [RedisGet (Some ''T1''), GetResults (Some ''T1''),
                    RedisSet (Some ''T1'') (py_dumps (task_view ''T1'' TaskStatus_SUCCESS)),
                    RedisGet (Some ''T1''), RedisGet (Some ''T1'')],
          logged := [''Save results to Redis cache, task '' @ [CHR 0x27] @ ''T1'' @ [CHR 0x27],
                     ''Redis cache is available, task '' @ [CHR 0x27] @ ''T1'' @ [CHR 0x27],
                     ''Redis cache is available, task '' @ [CHR 0x27] @ ''T1'' @ [CHR 0x27]],
          written := [py_dumps (task_view ''T1'' TaskStatus_SUCCESS)]\<rparr>
   \<and> redis_get sample_collaborators (Some ''T1'')
       (world (next_request
                 (ResultsHandler_get sample_collaborators (query [(''task_id'', ''T1'')] [])
                    (start sample_world))))
     = (Inr (Some (py_dumps (task_view ''T1'' TaskStatus_SUCCESS))),
        sample_world\<lparr>cache := [Some ''T1'' \<mapsto> py_dumps (task_view ''T1'' TaskStatus_SUCCESS)]\<rparr>)
   \<and> written (ResultsHandler_get sample_collaborators (query [(''task_id'', ''T1'')] [])
                (next_request
                   (ResultsHandler_get sample_collaborators (query [(''task_id'', ''T1'')] [])
                      (start sample_world))))
     = [py_dumps (task_view ''T1'' TaskStatus_SUCCESS)]"
proof -
  let ?d = sample_collaborators
  let ?req = "query [(''task_id'', ''T1'')] []"
  let ?r = "task_view ''T1'' TaskStatus_SUCCESS"
  let ?t = "PyDict [(''task_id'', PyStr ''T1''), (''status'', PyStr TaskStatus_SUCCESS)]"
  let ?w' = "sample_world\<lparr>cache := [Some ''T1'' \<mapsto> py_dumps ?r]\<rparr>"
  let ?s1 = "ResultsHandler_get ?d ?req (start sample_world)"
  have hb: "get_argument ?req ''task_id'' None = Inr (Some ''T1'')
        \<and> faults sample_world Op_redis_get = None \<and> faults sample_world Op_redis_set = None
        \<and> faults sample_world Op_get_results = None
        \<and> cache sample_world (Some ''T1'') = None
        \<and> map_of (store sample_world) ''T1'' = Some ?r
        \<and> py_get ?r ''task'' (PyDict []) = Inr ?t
        \<and> py_get ?t ''status'' (PyStr []) = Inr (PyStr TaskStatus_SUCCESS)
        \<and> (TaskStatus_SUCCESS = TaskStatus_SUCCESS \<or> TaskStatus_SUCCESS = TaskStatus_ERROR)"
    by (simp add: sample_T1 sample_world_def py_get_def task_view_def)
  note both = truthy_cached_value_served_from_cache
    [where d = ?d and req = ?req and decode = sample_json_decode and to_int = sample_int,
     folded sample_collaborators_def]
  have b2: "query_again ?d ?req 2 ?s1
      = (start sample_world)
          \<lparr>world := ?w',
           calls := [RedisGet (Some ''T1''), GetResults (Some ''T1''),
                     RedisSet (Some ''T1'') (py_dumps ?r),
                     RedisGet (Some ''T1''), RedisGet (Some ''T1'')],
           logged := [''Save results to Redis cache, task '' @ [CHR 0x27] @ ''T1'' @ [CHR 0x27],
                      ''Redis cache is available, task '' @ [CHR 0x27] @ ''T1'' @ [CHR 0x27],
                      ''Redis cache is available, task '' @ [CHR 0x27] @ ''T1'' @ [CHR 0x27]],
           written := [py_dumps ?r]\<rparr>"
    using both [THEN conjunct2, rule_format, OF hb, of 2]
    by (simp add: sample_world_def numeral_2_eq_2)
  have b0: "?s1 = (start sample_world)
          \<lparr>world := ?w',
           calls := [RedisGet (Some ''T1''), GetResults (Some ''T1''),
                     RedisSet (Some ''T1'') (py_dumps ?r)],
           logged := [''Save results to Redis cache, task '' @ [CHR 0x27] @ ''T1'' @ [CHR 0x27]],
           written := [py_dumps ?r]\<rparr>"
    using both [THEN conjunct2, rule_format, OF hb, of 0]
    by (simp add: sample_world_def query_again_def)
  have hit: "redis_get ?d (Some ''T1'') (world (next_request ?s1))
            = (Inr (Some (py_dumps ?r)), ?w')"
    unfolding b0
    by (simp add: sample_collaborators_def spec_collaborators_def spec_redis_get_def guarded_def
        start_def sample_world_def next_request_def)
  have ha: "get_argument ?req ''task_id'' None = Inr (Some ''T1'')
            \<and> redis_get ?d (Some ''T1'') (world (next_request ?s1))
              = (Inr (Some (py_dumps ?r)), ?w')
            \<and> py_dumps ?r \<noteq> []"
    using sample_T1 hit py_dumps_nonempty by blast
  have a: "written (ResultsHandler_get ?d ?req (next_request ?s1)) = [py_dumps ?r]"
    using both [where s = "next_request ?s1", THEN conjunct1, rule_format, OF ha]
    by (simp add: next_request_def)
  have h2: "cache sample_world (Some ''T1'') = None" using hb by simp
  have h3: "map_of (store sample_world) ''T1'' = Some ?r" using hb by simp
  show ?thesis
    by (intro conjI) (rule sample_T1 h2 h3 b2 hit a)+
qed

text \<open>
  C4 as stated fails: with the empty string cached for \<^verbatim>\<open>T2\<close>, the cache holds a value
  for the queried identifier, yet the query reads the store and answers the record, not the
  cached value.
\<close>

theorem falsy_cached_value_not_served_counterexample:
  "cache empty_entry_cached (Some ''T2'') = Some []
   \<and> redis_get sample_collaborators (Some ''T2'') empty_entry_cached
     = (Inr (Some []), empty_entry_cached)
   \<and> calls (ResultsHandler_get sample_collaborators (query [(''task_id'', ''T2'')] [])
              (start empty_entry_cached))
     = [RedisGet (Some ''T2''), GetResults (Some ''T2'')]
   \<and> written (ResultsHandler_get sample_collaborators (query [(''task_id'', ''T2'')] [])
                (start empty_entry_cached))
     = [py_dumps (task_view ''T2'' TaskStatus_PENDING)]"
  by (simp add: sample_results_defs sample_T2 empty_entry_cached_def py_get_def task_view_def)

section \<open>Properties of task creation\<close>

lemmas create_defs = CreateTaskHandler_post_def CreateTaskHandler_post_body_def run_defs Let_def
  send_error_400_def

lemmas spec_defs = spec_collaborators_def spec_redis_get_def spec_redis_set_def
  spec_get_record_def spec_TaskItem_def spec_task_as_json_def spec_create_task_def
  spec_run_task_def spec_publish_task_def spec_get_tasks_def guarded_def

lemmas sample_create_defs = create_defs sample_collaborators_def spec_defs argument_defs
  start_def sample_world_def sample_json_decode_def

lemma map_of_append_fresh: "t \<notin> fst ` set xs \<Longrightarrow> ([t \<mapsto> v] ++ map_of xs) t = Some v"
proof -
  assume "t \<notin> fst ` set xs"
  then have "map_of xs t = None" by (simp add: map_of_eq_None_iff)
  then show ?thesis by (simp add: map_add_def)
qed

lemma map_of_retag:
  "map_of (map (\<lambda>(i, r). if i = t then (i, x) else (i, r)) xs) t
     = (if t \<in> fst ` set xs then Some x else None)"
  by (induction xs) auto

lemma dispatch_after_create:
  fixes d :: "('w, 't) collaborators" and w :: 'w
  assumes "RunTask t b \<in> set (calls (CreateTaskHandler_post d req (start w)))
           \<or> PublishTask t b \<in> set (calls (CreateTaskHandler_post d req (start w)))"
  shows "\<exists>w1 w2. json_decode d (body req) = Inr b
           \<and> TaskItem d w = (Inr t, w1)
           \<and> TaskCrud_create_task d t w1 = (Inr (), w2)
           \<and> take 3 (calls (CreateTaskHandler_post d req (start w)))
              = [NewTaskItem, CreateTask t,
                 if get_argument req ''type'' (Some ''queue'') = Inr (Some ''process'')
                 then RunTask t b else PublishTask t b]"
proof (cases "get_argument req ''type'' (Some ''queue'')")
  case (Inl h)
  then show ?thesis using assms by (simp add: create_defs start_def)
next
  case m: (Inr m)
  obtain o1 w1 where r1: "TaskItem d w = (o1, w1)" by (cases "TaskItem d w")
  show ?thesis
  proof (cases "json_decode d (body req)")
    case (Inl e)
    then show ?thesis using assms m by (simp add: create_defs start_def)
  next
    case b': (Inr b')
    show ?thesis
    proof (cases o1)
      case (Inl e)
      then show ?thesis using assms m b' r1 by (simp add: create_defs start_def)
    next
      case t': (Inr t')
      obtain o2 w2 where r2: "TaskCrud_create_task d t' w1 = (o2, w2)"
        by (cases "TaskCrud_create_task d t' w1")
      show ?thesis
      proof (cases o2)
        case (Inl e)
        then show ?thesis using assms m b' r1 t' r2 by (simp add: create_defs start_def)
      next
        case (Inr u)
        obtain o3 w3 where r3: "TaskSpawner_run_task d t' b' w2 = (o3, w3)"
          by (cases "TaskSpawner_run_task d t' b' w2")
        obtain o4 w4 where r4: "publisher_publish_task d t' b' w2 = (o4, w4)"
          by (cases "publisher_publish_task d t' b' w2")
        obtain o5 w5 where r5: "task_as_json d t' w3 = (o5, w5)"
          by (cases "task_as_json d t' w3")
        obtain o6 w6 where r6: "task_as_json d t' w4 = (o6, w6)"
          by (cases "task_as_json d t' w4")
        show ?thesis
          using assms m b' r1 t' r2 Inr r3 r4 r5 r6
          by (auto simp: create_defs start_def split: sum.splits if_splits option.splits)
      qed
    qed
  qed
qed

lemma spec_create_task_persists:
  assumes "spec_create_task t w1 = (Inr (), w2)"
  shows "map_of (store w2) t = Some (task_view t TaskStatus_PENDING)"
  using assms
  by (auto simp: spec_create_task_def guarded_def map_of_append_fresh
      split: option.splits if_splits)

lemma spec_created_record_found:
  fixes v :: world
  assumes "status_code (CreateTaskHandler_post (spec_collaborators decode to_int) req (start v)) = 200"
  shows "\<exists>t r. AsJson t \<in> set (calls (CreateTaskHandler_post (spec_collaborators decode to_int) req (start v)))
         \<and> map_of (store (world (CreateTaskHandler_post (spec_collaborators decode to_int) req (start v)))) t = Some r
         \<and> (get_argument req ''type'' (Some ''queue'') = Inr (Some ''queue'')
              \<longrightarrow> r = task_view t TaskStatus_PENDING)"
proof (cases "get_argument req ''type'' (Some ''queue'')")
  case (Inl h)
  then show ?thesis using assms by (simp add: create_defs start_def)
next
  case m: (Inr m)
  show ?thesis
  proof (cases "decode (body req)")
    case (Inl e)
    then show ?thesis using assms m by (simp add: create_defs start_def spec_collaborators_def)
  next
    case (Inr b)
    show ?thesis
    proof (cases "m = Some ''process''")
      case True
      then show ?thesis
        using assms m Inr
        by (auto simp: create_defs start_def spec_defs map_of_retag
            split: option.splits if_splits)
    next
      case False
      then show ?thesis
        using assms m Inr
        by (auto simp: create_defs start_def spec_defs map_of_append_fresh
            split: option.splits if_splits)
    qed
  qed
qed

lemma sample_no_type:
  "get_argument (query [] b) ''type'' (Some ''queue'') = Inr (Some ''queue'')"
  by (simp add: argument_defs)

lemma sample_batch:
  "get_argument (query [(''type'', '' batch '')] b) ''type'' (Some ''queue'')
     = Inr (Some ''batch'')"
  by (simp add: argument_defs)



text \<open>
  C5 (as amended). A creation request whose \<^verbatim>\<open>type\<close>, as \<^verbatim>\<open>get_argument\<close>
  returns it, is neither \<^verbatim>\<open>queue\<close> nor \<^verbatim>\<open>process\<close> always fails with status
  500, and neither \<^verbatim>\<open>TaskSpawner.run_task\<close> nor
  \<^verbatim>\<open>publisher.publish_task\<close> is called. When its body decodes, the task object is
  made and the record is created, the error message names the received value and the two
  accepted values, and the only calls made are those two: the created record is left as it
  is.
\<close>

theorem unsupported_type_no_dispatch:
  fixes d :: "('w, 't) collaborators" and w :: 'w
  assumes "get_argument req ''type'' (Some ''queue'') = Inr (Some m)"
    and "m \<noteq> ''queue''" and "m \<noteq> ''process''"
  shows "status_code (CreateTaskHandler_post d req (start w)) = 500
       \<and> (\<forall>t b. RunTask t b \<notin> set (calls (CreateTaskHandler_post d req (start w)))
               \<and> PublishTask t b \<notin> set (calls (CreateTaskHandler_post d req (start w))))
       \<and> (\<forall>b t w1 w2.
             json_decode d (body req) = Inr b
           \<and> TaskItem d w = (Inr t, w1)
           \<and> TaskCrud_create_task d t w1 = (Inr (), w2) \<longrightarrow>
             CreateTaskHandler_post d req (start w) =
               (start w)
                 \<lparr>world := w2,
                  calls := [NewTaskItem, CreateTask t],
                  status_code := 500,
                  written := [server_response_error d
                       (''Unsupported value for parameter '' @ [CHR 0x27] @ ''type'' @ [CHR 0x27]
                        @ '': '' @ m @ ''. Supported values: ''
                        @ [CHR 0x27] @ ''queue'' @ [CHR 0x27] @ '', ''
                        @ [CHR 0x27] @ ''process'' @ [CHR 0x27])]\<rparr>)"
proof -
  note m = assms(1)
  obtain o1 w1 where r1: "TaskItem d w = (o1, w1)" by (cases "TaskItem d w")
  show ?thesis
  proof (cases "json_decode d (body req)")
    case (Inl e)
    then show ?thesis using m by (simp add: create_defs start_def)
  next
    case (Inr b)
    show ?thesis
    proof (cases o1)
      case (Inl e)
      then show ?thesis using Inr r1 m by (simp add: create_defs start_def)
    next
      case t: (Inr t)
      obtain o2 w2 where r2: "TaskCrud_create_task d t w1 = (o2, w2)"
        by (cases "TaskCrud_create_task d t w1")
      show ?thesis
        using Inr r1 t r2 m assms(2,3)
        by (cases o2) (simp_all add: create_defs start_def)
    qed
  qed
qed

text \<open>
  The theorem at a \<^verbatim>\<open>type\<close> of \<^verbatim>\<open>batch\<close> between blanks, which
  \<^verbatim>\<open>get_argument\<close> strips, with the body \<^verbatim>\<open>{}\<close> in the sample world: the
  record of the new task is in the store, pending, and the queue is empty.
\<close>

theorem unsupported_type_no_dispatch_witness:
  "get_argument (query [(''type'', '' batch '')] ''{}'') ''type'' (Some ''queue'')
     = Inr (Some ''batch'')
   \<and> ''batch'' \<noteq> ''queue'' \<and> ''batch'' \<noteq> ''process''
   \<and> json_decode sample_collaborators (body (query [(''type'', '' batch '')] ''{}''))
     = Inr (PyDict [])
   \<and> TaskItem sample_collaborators sample_world = (Inr ''N0'', sample_world\<lparr>uuid_count := 1\<rparr>)
   \<and> TaskCrud_create_task sample_collaborators ''N0'' (sample_world\<lparr>uuid_count := 1\<rparr>)
     = (Inr (), sample_world\<lparr>uuid_count := 1,
                               store := store sample_world
                                        @ [(''N0'', task_view ''N0'' TaskStatus_PENDING)]\<rparr>)
   \<and> CreateTaskHandler_post sample_collaborators (query [(''type'', '' batch '')] ''{}'')
       (start sample_world)
     = (start sample_world)
         \<lparr>world := sample_world\<lparr>uuid_count := 1,
                                  store := store sample_world
                                           @ [(''N0'', task_view ''N0'' TaskStatus_PENDING)]\<rparr>,
          calls := [NewTaskItem, CreateTask ''N0''],
          status_code := 500,
          written := [spec_server_response_error
                       (''Unsupported value for parameter '' @ [CHR 0x27] @ ''type'' @ [CHR 0x27]
                        @ '': batch. Supported values: ''
                        @ [CHR 0x27] @ ''queue'' @ [CHR 0x27] @ '', ''
                        @ [CHR 0x27] @ ''process'' @ [CHR 0x27])]\<rparr>
   \<and> queue (world (CreateTaskHandler_post sample_collaborators
                      (query [(''type'', '' batch '')] ''{}'') (start sample_world))) = []"
proof -
  let ?d = sample_collaborators
  let ?req = "query [(''type'', '' batch '')] ''{}''"
  let ?w1 = "sample_world\<lparr>uuid_count := 1\<rparr>"
  let ?w2 = "sample_world\<lparr>uuid_count := 1,
               store := store sample_world @ [(''N0'', task_view ''N0'' TaskStatus_PENDING)]\<rparr>"
  have h1: "get_argument ?req ''type'' (Some ''queue'') = Inr (Some ''batch'')"
    by (rule sample_batch)
  have h2: "''batch'' \<noteq> ''queue''" by simp
  have h3: "''batch'' \<noteq> ''process''" by simp
  have g: "json_decode ?d (body ?req) = Inr (PyDict [])
           \<and> TaskItem ?d sample_world = (Inr ''N0'', ?w1)
           \<and> TaskCrud_create_task ?d ''N0'' ?w1 = (Inr (), ?w2)"
    by (simp add: sample_collaborators_def spec_defs query_def sample_world_def
        sample_json_decode_def)
  note r = unsupported_type_no_dispatch [OF h1 h2 h3, of ?d sample_world]
  have s: "CreateTaskHandler_post ?d ?req (start sample_world)
     = (start sample_world)
         \<lparr>world := ?w2,
          calls := [NewTaskItem, CreateTask ''N0''],
          status_code := 500,
          written := [server_response_error ?d
                       (''Unsupported value for parameter '' @ [CHR 0x27] @ ''type'' @ [CHR 0x27]
                        @ '': '' @ ''batch'' @ ''. Supported values: ''
                        @ [CHR 0x27] @ ''queue'' @ [CHR 0x27] @ '', ''
                        @ [CHR 0x27] @ ''process'' @ [CHR 0x27])]\<rparr>"
    using r [THEN conjunct2, THEN conjunct2, rule_format, OF g] .
  have q: "queue (world (CreateTaskHandler_post ?d ?req (start sample_world))) = []"
    unfolding s by (simp add: sample_world_def)
  have e: "server_response_error ?d = spec_server_response_error"
    by (simp add: sample_collaborators_def spec_collaborators_def)
  have s': "CreateTaskHandler_post ?d ?req (start sample_world)
     = (start sample_world)
         \<lparr>world := ?w2,
          calls := [NewTaskItem, CreateTask ''N0''],
          status_code := 500,
          written := [spec_server_response_error
                       (''Unsupported value for parameter '' @ [CHR 0x27] @ ''type'' @ [CHR 0x27]
                        @ '': batch. Supported values: ''
                        @ [CHR 0x27] @ ''queue'' @ [CHR 0x27] @ '', ''
                        @ [CHR 0x27] @ ''process'' @ [CHR 0x27])]\<rparr>"
    using s by (simp add: e)
  show ?thesis
    by (intro conjI) (rule h1 h2 h3 g [THEN conjunct1] g [THEN conjunct2, THEN conjunct1]
        g [THEN conjunct2, THEN conjunct2] s' q)+
qed

text \<open>
  C5 as stated fails: at \<^verbatim>\<open>type=batch\<close> with a body that is not JSON, the error
  message is the decoder's and names neither the received value nor the accepted ones.
\<close>

theorem unsupported_type_invalid_body_counterexample:
  "get_argument (query [(''type'', ''batch'')] ''not json'') ''type'' (Some ''queue'')
     = Inr (Some ''batch'')
   \<and> written (CreateTaskHandler_post sample_collaborators
                (query [(''type'', ''batch'')] ''not json'') (start sample_world))
     = [spec_server_response_error
          ''Unexpected error at task creating: Expecting value: line 1 column 1 (char 0)'']
   \<and> written (CreateTaskHandler_post sample_collaborators
                (query [(''type'', ''batch'')] ''not json'') (start sample_world))
     \<noteq> [spec_server_response_error
          (''Unsupported value for parameter '' @ [CHR 0x27] @ ''type'' @ [CHR 0x27]
           @ '': batch. Supported values: ''
           @ [CHR 0x27] @ ''queue'' @ [CHR 0x27] @ '', ''
           @ [CHR 0x27] @ ''process'' @ [CHR 0x27])]"
  by (simp add: sample_create_defs spec_server_response_error_def json_string_def
      json_escape_char_def)

text \<open>
  C6. Whenever \<^verbatim>\<open>TaskSpawner.run_task\<close> or \<^verbatim>\<open>publisher.publish_task\<close> is
  called for a task, the body has been decoded, \<^verbatim>\<open>TaskItem()\<close> has made that task
  and \<^verbatim>\<open>TaskCrud.create_task\<close> has returned for it, and these are the first three
  calls of the handler in that order. In the store of the spec a returned
  \<^verbatim>\<open>create_task\<close> has persisted the \<^verbatim>\<open>PENDING\<close> record of the identifier.
  And whenever a creation request is answered with status 200, the store holds a record
  for the new identifier afterwards, which a read of the results finds when the store is
  in order; for the \<^verbatim>\<open>queue\<close> mode it is the \<^verbatim>\<open>PENDING\<close> record.
\<close>

theorem record_persisted_before_dispatch:
  fixes d :: "('w, 't) collaborators" and w :: 'w and v :: world
  shows
  "(\<forall>t b. RunTask t b \<in> set (calls (CreateTaskHandler_post d req (start w)))
           \<or> PublishTask t b \<in> set (calls (CreateTaskHandler_post d req (start w))) \<longrightarrow>
      (\<exists>w1 w2. json_decode d (body req) = Inr b
         \<and> TaskItem d w = (Inr t, w1)
         \<and> TaskCrud_create_task d t w1 = (Inr (), w2)
         \<and> take 3 (calls (CreateTaskHandler_post d req (start w)))
            = [NewTaskItem, CreateTask t,
               if get_argument req ''type'' (Some ''queue'') = Inr (Some ''process'')
               then RunTask t b else PublishTask t b]))
   \<and> (\<forall>i w1 w2. TaskCrud_create_task (spec_collaborators decode to_int) i w1 = (Inr (), w2) \<longrightarrow>
         map_of (store w2) i = Some (task_view i TaskStatus_PENDING))
   \<and> (status_code (CreateTaskHandler_post (spec_collaborators decode to_int) req (start v)) = 200 \<longrightarrow>
       (\<exists>i r. AsJson i \<in> set (calls (CreateTaskHandler_post (spec_collaborators decode to_int)
                                         req (start v)))
          \<and> map_of (store (world (CreateTaskHandler_post (spec_collaborators decode to_int)
                                      req (start v)))) i = Some r
          \<and> (faults (world (CreateTaskHandler_post (spec_collaborators decode to_int)
                              req (start v))) Op_get_results = None \<longrightarrow>
               TaskCrud_get_results (spec_collaborators decode to_int) (Some i)
                 (world (CreateTaskHandler_post (spec_collaborators decode to_int) req (start v)))
               = (Inr r, world (CreateTaskHandler_post (spec_collaborators decode to_int)
                                  req (start v))))
          \<and> (get_argument req ''type'' (Some ''queue'') = Inr (Some ''queue'')
               \<longrightarrow> r = task_view i TaskStatus_PENDING)))"
proof (intro conjI allI impI)
  fix t b
  assume "RunTask t b \<in> set (calls (CreateTaskHandler_post d req (start w)))
          \<or> PublishTask t b \<in> set (calls (CreateTaskHandler_post d req (start w)))"
  then show "\<exists>w1 w2. json_decode d (body req) = Inr b
         \<and> TaskItem d w = (Inr t, w1)
         \<and> TaskCrud_create_task d t w1 = (Inr (), w2)
         \<and> take 3 (calls (CreateTaskHandler_post d req (start w)))
            = [NewTaskItem, CreateTask t,
               if get_argument req ''type'' (Some ''queue'') = Inr (Some ''process'')
               then RunTask t b else PublishTask t b]"
    by (rule dispatch_after_create)
next
  fix i and w1 w2 :: world
  assume "TaskCrud_create_task (spec_collaborators decode to_int) i w1 = (Inr (), w2)"
  then have "spec_create_task i w1 = (Inr (), w2)"
    by (simp add: spec_collaborators_def)
  then show "map_of (store w2) i = Some (task_view i TaskStatus_PENDING)"
    by (rule spec_create_task_persists)
next
  let ?d = "spec_collaborators decode to_int"
  let ?s = "CreateTaskHandler_post ?d req (start v)"
  assume "status_code ?s = 200"
  then obtain i r where ir: "AsJson i \<in> set (calls ?s)"
      "map_of (store (world ?s)) i = Some r"
      "get_argument req ''type'' (Some ''queue'') = Inr (Some ''queue'')
         \<longrightarrow> r = task_view i TaskStatus_PENDING"
    using spec_created_record_found by blast
  have g: "faults (world ?s) Op_get_results = None \<longrightarrow>
          TaskCrud_get_results ?d (Some i) (world ?s) = (Inr r, world ?s)"
    using ir(2) by (simp add: spec_collaborators_def spec_get_record_def guarded_def)
  show "\<exists>i r. AsJson i \<in> set (calls ?s)
          \<and> map_of (store (world ?s)) i = Some r
          \<and> (faults (world ?s) Op_get_results = None \<longrightarrow>
               TaskCrud_get_results ?d (Some i) (world ?s) = (Inr r, world ?s))
          \<and> (get_argument req ''type'' (Some ''queue'') = Inr (Some ''queue'')
               \<longrightarrow> r = task_view i TaskStatus_PENDING)"
  proof (intro exI conjI)
    show "AsJson i \<in> set (calls ?s)" by (rule ir(1))
    show "map_of (store (world ?s)) i = Some r" by (rule ir(2))
    show "faults (world ?s) Op_get_results = None \<longrightarrow>
          TaskCrud_get_results ?d (Some i) (world ?s) = (Inr r, world ?s)" by (rule g)
    show "get_argument req ''type'' (Some ''queue'') = Inr (Some ''queue'')
          \<longrightarrow> r = task_view i TaskStatus_PENDING" by (rule ir(3))
  qed
qed

text \<open>
  The theorem at a creation request with the body \<^verbatim>\<open>{}\<close> and the default mode in
  the sample world.
\<close>

theorem record_persisted_before_dispatch_witness:
  "PublishTask ''N0'' (PyDict [])
     \<in> set (calls (CreateTaskHandler_post sample_collaborators (query [] ''{}'')
                     (start sample_world)))
   \<and> take 3 (calls (CreateTaskHandler_post sample_collaborators (query [] ''{}'')
                      (start sample_world)))
     = [NewTaskItem, CreateTask ''N0'', PublishTask ''N0'' (PyDict [])]
   \<and> TaskCrud_create_task sample_collaborators ''N0'' (sample_world\<lparr>uuid_count := 1\<rparr>)
     = (Inr (), sample_world\<lparr>uuid_count := 1,
                               store := store sample_world
                                        @ [(''N0'', task_view ''N0'' TaskStatus_PENDING)]\<rparr>)
   \<and> map_of (store (sample_world\<lparr>uuid_count := 1,
                                   store := store sample_world
                                            @ [(''N0'', task_view ''N0'' TaskStatus_PENDING)]\<rparr>))
        ''N0'' = Some (task_view ''N0'' TaskStatus_PENDING)
   \<and> status_code (CreateTaskHandler_post sample_collaborators (query [] ''{}'')
                    (start sample_world)) = 200
   \<and> TaskCrud_get_results sample_collaborators (Some ''N0'')
       (world (CreateTaskHandler_post sample_collaborators (query [] ''{}'') (start sample_world)))
     = (Inr (task_view ''N0'' TaskStatus_PENDING),
        world (CreateTaskHandler_post sample_collaborators (query [] ''{}'') (start sample_world)))"
proof -
  let ?d = sample_collaborators
  let ?req = "query [] ''{}''"
  let ?s = "CreateTaskHandler_post ?d ?req (start sample_world)"
  let ?w1 = "sample_world\<lparr>uuid_count := 1\<rparr>"
  let ?w2 = "sample_world\<lparr>uuid_count := 1,
               store := store sample_world @ [(''N0'', task_view ''N0'' TaskStatus_PENDING)]\<rparr>"
  note r = record_persisted_before_dispatch
    [where d = ?d and w = sample_world and v = sample_world and req = ?req
       and decode = sample_json_decode and to_int = sample_int,
     folded sample_collaborators_def]
  have calls: "calls ?s = [NewTaskItem, CreateTask ''N0'', PublishTask ''N0'' (PyDict []),
                           AsJson ''N0'']"
    by (simp add: sample_create_defs)
  have h1: "RunTask ''N0'' (PyDict []) \<in> set (calls ?s)
            \<or> PublishTask ''N0'' (PyDict []) \<in> set (calls ?s)"
    by (simp add: calls)
  have mode: "get_argument ?req ''type'' (Some ''queue'') = Inr (Some ''queue'')"
    by (rule sample_no_type)
  have c1: "take 3 (calls ?s) = [NewTaskItem, CreateTask ''N0'', PublishTask ''N0'' (PyDict [])]"
    using r [THEN conjunct1, rule_format, OF h1] mode by auto
  have h2: "TaskCrud_create_task ?d ''N0'' ?w1 = (Inr (), ?w2)"
    by (simp add: sample_collaborators_def spec_defs sample_world_def)
  have c2: "map_of (store ?w2) ''N0'' = Some (task_view ''N0'' TaskStatus_PENDING)"
    using r [THEN conjunct2, THEN conjunct1, rule_format, OF h2] .
  have h3: "status_code ?s = 200"
    by (simp add: sample_create_defs)
  have f: "faults (world ?s) Op_get_results = None"
    by (simp add: sample_create_defs)
  from r [THEN conjunct2, THEN conjunct2, rule_format, OF h3]
  obtain i where "\<exists>x. AsJson i \<in> set (calls ?s)
          \<and> map_of (store (world ?s)) i = Some x
          \<and> (faults (world ?s) Op_get_results = None \<longrightarrow>
               TaskCrud_get_results ?d (Some i) (world ?s) = (Inr x, world ?s))
          \<and> (get_argument ?req ''type'' (Some ''queue'') = Inr (Some ''queue'')
               \<longrightarrow> x = task_view i TaskStatus_PENDING)" ..
  then obtain x where ix: "AsJson i \<in> set (calls ?s)
          \<and> map_of (store (world ?s)) i = Some x
          \<and> (faults (world ?s) Op_get_results = None \<longrightarrow>
               TaskCrud_get_results ?d (Some i) (world ?s) = (Inr x, world ?s))
          \<and> (get_argument ?req ''type'' (Some ''queue'') = Inr (Some ''queue'')
               \<longrightarrow> x = task_view i TaskStatus_PENDING)" ..
  have i: "i = ''N0''" using ix [THEN conjunct1] by (simp add: calls)
  have x: "x = task_view i TaskStatus_PENDING"
    using ix [THEN conjunct2, THEN conjunct2, THEN conjunct2] mode by simp
  have c3: "TaskCrud_get_results ?d (Some ''N0'') (world ?s)
            = (Inr (task_view ''N0'' TaskStatus_PENDING), world ?s)"
    using ix [THEN conjunct2, THEN conjunct2, THEN conjunct1] f x i by simp
  from h1 have h1': "PublishTask ''N0'' (PyDict []) \<in> set (calls ?s)"
    by (simp add: calls)
  show ?thesis
    by (intro conjI) (rule h1' c1 h2 c2 h3 c3)+
qed

section \<open>Properties of the task listing\<close>

lemmas list_defs = ListTaskHandler_get_def ListTaskHandler_get_body_def run_defs Let_def
  send_error_400_def

lemma sample_limit_abc:
  "get_argument (query [(''limit'', '' abc '')] []) ''task_id'' None = Inr None
   \<and> get_argument (query [(''limit'', '' abc '')] []) ''limit'' None = Inr (Some ''abc'')"
  by (simp add: argument_defs)

lemma sample_limit_blank:
  "get_argument (query [(''limit'', '' '')] []) ''task_id'' None = Inr None
   \<and> get_argument (query [(''limit'', '' '')] []) ''limit'' None = Inr (Some [])"
  by (simp add: argument_defs)

lemma sample_limit_empty:
  "get_argument (query [(''limit'', [])] []) ''task_id'' None = Inr None
   \<and> get_argument (query [(''limit'', [])] []) ''limit'' None = Inr (Some [])"
  by (simp add: argument_defs)

lemma sample_T1_limit_abc:
  "get_argument (query [(''task_id'', ''T1''), (''limit'', ''abc'')] []) ''task_id'' None
     = Inr (Some ''T1'')
   \<and> get_argument (query [(''task_id'', ''T1''), (''limit'', ''abc'')] []) ''limit'' None
     = Inr (Some ''abc'')"
  by (simp add: argument_defs)

lemma sample_T1_limit_2:
  "get_argument (query [(''task_id'', ''T1''), (''limit'', ''2'')] []) ''task_id'' None
     = Inr (Some ''T1'')
   \<and> get_argument (query [(''task_id'', ''T1''), (''limit'', ''2'')] []) ''limit'' None
     = Inr (Some ''2'')"
  by (simp add: argument_defs)

text \<open>
  C10 (as amended). The arguments are taken as \<^verbatim>\<open>get_argument\<close> returns them,
  stripped. A task-listing request without a non-empty task identifier whose
  \<^verbatim>\<open>limit\<close> is a non-empty string that \<^verbatim>\<open>int\<close> rejects is answered with status
  500 and the error envelope of the conversion error, and no collaborator is called. A
  \<^verbatim>\<open>limit\<close> that is absent or empty is no limit: \<^verbatim>\<open>get_tasks(None)\<close> is
  called and its listing is the answer. When a non-empty task identifier is supplied, the
  answer does not depend on \<^verbatim>\<open>limit\<close>: any two requests with that identifier whose
  limits decode give the same result.
\<close>

theorem unparseable_limit_is_an_error:
  fixes d :: "('w, 't) collaborators"
  shows
  "(\<forall>tid l e.
        get_argument req ''task_id'' None = Inr tid \<and> \<not> truthy tid
      \<and> get_argument req ''limit'' None = Inr (Some l) \<and> l \<noteq> []
      \<and> py_int d l = Inl e \<longrightarrow>
      ListTaskHandler_get d req s =
        s\<lparr>status_code := 500,
          written := written s @ [server_response_error d
                       (''Unexpected error at tasks listing: '' @ exn_str e)]\<rparr>)
   \<and> (\<forall>tid lim r w1 j.
        get_argument req ''task_id'' None = Inr tid \<and> \<not> truthy tid
      \<and> get_argument req ''limit'' None = Inr lim \<and> \<not> truthy lim
      \<and> TaskCrud_get_tasks d None (world s) = (Inr r, w1)
      \<and> dumps d r = Inr j \<longrightarrow>
      ListTaskHandler_get d req s =
        s\<lparr>world := w1,
          calls := calls s @ [GetTasks None],
          written := written s @ [j]\<rparr>)
   \<and> (\<forall>tid lim req' lim'.
        get_argument req ''task_id'' None = Inr tid \<and> truthy tid
      \<and> get_argument req ''limit'' None = Inr lim
      \<and> get_argument req' ''task_id'' None = Inr tid
      \<and> get_argument req' ''limit'' None = Inr lim' \<longrightarrow>
      ListTaskHandler_get d req' s = ListTaskHandler_get d req s)"
  by (auto simp: list_defs split: option.splits)

text \<open>
  The theorem in the sample world: \<^verbatim>\<open>limit\<close> of \<^verbatim>\<open>abc\<close> between blanks is
  an error, a blank \<^verbatim>\<open>limit\<close> gives the whole listing, and with
  \<^verbatim>\<open>task_id=T1\<close> the limit makes no difference.
\<close>

theorem unparseable_limit_is_an_error_witness:
  "get_argument (query [(''limit'', '' abc '')] []) ''task_id'' None = Inr None
   \<and> \<not> truthy None
   \<and> get_argument (query [(''limit'', '' abc '')] []) ''limit'' None = Inr (Some ''abc'')
   \<and> ''abc'' \<noteq> []
   \<and> py_int sample_collaborators ''abc''
     = Inl (Exn ''ValueError''
             (''invalid literal for int() with base 10: '' @ [CHR 0x27] @ ''abc'' @ [CHR 0x27]))
   \<and> ListTaskHandler_get sample_collaborators (query [(''limit'', '' abc '')] [])
       (start sample_world)
     = (start sample_world)
         \<lparr>status_code := 500,
          written := [spec_server_response_error
                       (''Unexpected error at tasks listing: ''
                        @ ''invalid literal for int() with base 10: ''
                        @ [CHR 0x27] @ ''abc'' @ [CHR 0x27])]\<rparr>
   \<and> get_argument (query [(''limit'', '' '')] []) ''limit'' None = Inr (Some [])
   \<and> \<not> truthy (Some [])
   \<and> ListTaskHandler_get sample_collaborators (query [(''limit'', '' '')] [])
       (start sample_world)
     = (start sample_world)
         \<lparr>calls := [GetTasks None],
          written := [py_dumps (PyList [task_view ''T1'' TaskStatus_SUCCESS,
                                       task_view ''T2'' TaskStatus_PENDING])]\<rparr>
   \<and> truthy (Some ''T1'')
   \<and> ListTaskHandler_get sample_collaborators
       (query [(''task_id'', ''T1''), (''limit'', ''2'')] []) (start sample_world)
     = ListTaskHandler_get sample_collaborators
         (query [(''task_id'', ''T1''), (''limit'', ''abc'')] []) (start sample_world)"
proof -
  let ?d = sample_collaborators
  let ?q1 = "query [(''limit'', '' abc '')] []"
  let ?q0 = "query [(''limit'', '' '')] []"
  let ?q2 = "query [(''task_id'', ''T1''), (''limit'', ''abc'')] []"
  let ?q3 = "query [(''task_id'', ''T1''), (''limit'', ''2'')] []"
  let ?e = "Exn ''ValueError''
             (''invalid literal for int() with base 10: '' @ [CHR 0x27] @ ''abc'' @ [CHR 0x27])"
  let ?l = "PyList [task_view ''T1'' TaskStatus_SUCCESS, task_view ''T2'' TaskStatus_PENDING]"
  note r = unparseable_limit_is_an_error [where d = ?d and s = "start sample_world"]
  have n: "\<not> truthy None" by simp
  have ne: "''abc'' \<noteq> []" by simp
  have i: "py_int ?d ''abc'' = Inl ?e"
    by (simp add: sample_collaborators_def spec_collaborators_def sample_int_def is_digit_def)
  have e: "server_response_error ?d = spec_server_response_error"
    by (simp add: sample_collaborators_def spec_collaborators_def)
  have h1: "get_argument ?q1 ''task_id'' None = Inr None \<and> \<not> truthy None
            \<and> get_argument ?q1 ''limit'' None = Inr (Some ''abc'') \<and> ''abc'' \<noteq> []
            \<and> py_int ?d ''abc'' = Inl ?e"
    using sample_limit_abc i by simp
  have c1: "ListTaskHandler_get ?d ?q1 (start sample_world)
     = (start sample_world)
         \<lparr>status_code := 500,
          written := [spec_server_response_error
                       (''Unexpected error at tasks listing: ''
                        @ ''invalid literal for int() with base 10: ''
                        @ [CHR 0x27] @ ''abc'' @ [CHR 0x27])]\<rparr>"
    using r [of ?q1, THEN conjunct1, rule_format, OF h1]
    by (simp add: start_def e)
  have f: "\<not> truthy (Some [])" by simp
  have t: "TaskCrud_get_tasks ?d None (world (start sample_world :: (world, string) hstate))
           = (Inr ?l, sample_world)"
    by (simp add: sample_collaborators_def spec_collaborators_def spec_get_tasks_def guarded_def
        start_def sample_world_def)
  have h2: "get_argument ?q0 ''task_id'' None = Inr None \<and> \<not> truthy None
            \<and> get_argument ?q0 ''limit'' None = Inr (Some []) \<and> \<not> truthy (Some [])
            \<and> TaskCrud_get_tasks ?d None (world (start sample_world :: (world, string) hstate))
              = (Inr ?l, sample_world)
            \<and> dumps ?d ?l = Inr (py_dumps ?l)"
    using sample_limit_blank t
    by (simp add: sample_collaborators_def spec_collaborators_def)
  have c2: "ListTaskHandler_get ?d ?q0 (start sample_world)
     = (start sample_world)\<lparr>calls := [GetTasks None], written := [py_dumps ?l]\<rparr>"
    using r [of ?q0, THEN conjunct2, THEN conjunct1, rule_format, OF h2]
    by (simp add: start_def)
  have tr: "truthy (Some ''T1'')" by simp
  have h3: "get_argument ?q2 ''task_id'' None = Inr (Some ''T1'') \<and> truthy (Some ''T1'')
            \<and> get_argument ?q2 ''limit'' None = Inr (Some ''abc'')
            \<and> get_argument ?q3 ''task_id'' None = Inr (Some ''T1'')
            \<and> get_argument ?q3 ''limit'' None = Inr (Some ''2'')"
    using sample_T1_limit_abc sample_T1_limit_2 by simp
  have c3: "ListTaskHandler_get ?d ?q3 (start sample_world)
            = ListTaskHandler_get ?d ?q2 (start sample_world)"
    using r [of ?q2, THEN conjunct2, THEN conjunct2, rule_format, OF h3] .
  show ?thesis
    by (intro conjI)
      (rule sample_limit_abc [THEN conjunct1] n sample_limit_abc [THEN conjunct2] ne i c1
         sample_limit_blank [THEN conjunct2] f c2 tr c3)+
qed

text \<open>
  C10 as stated fails: an empty \<^verbatim>\<open>limit\<close> is supplied and is not an integer, yet the
  handler never converts it and answers with the unbounded listing and status 200.
\<close>

theorem empty_limit_is_a_listing_counterexample:
  "arguments (query [(''limit'', [])] []) ''limit'' = [Text []]
   \<and> get_argument (query [(''limit'', [])] []) ''limit'' None = Inr (Some [])
   \<and> get_argument (query [(''limit'', [])] []) ''task_id'' None = Inr None
   \<and> py_int sample_collaborators []
     = Inl (Exn ''ValueError''
             (''invalid literal for int() with base 10: '' @ [CHR 0x27, CHR 0x27]))
   \<and> status_code (ListTaskHandler_get sample_collaborators (query [(''limit'', [])] [])
                    (start sample_world)) = 200
   \<and> calls (ListTaskHandler_get sample_collaborators (query [(''limit'', [])] [])
              (start sample_world)) = [GetTasks None]
   \<and> written (ListTaskHandler_get sample_collaborators (query [(''limit'', [])] [])
                (start sample_world))
     = [py_dumps (PyList [task_view ''T1'' TaskStatus_SUCCESS,
                          task_view ''T2'' TaskStatus_PENDING])]"
proof -
  have a: "arguments (query [(''limit'', [])] []) ''limit'' = [Text []]"
    by (simp add: query_def)
  have b: "py_int sample_collaborators []
     = Inl (Exn ''ValueError''
             (''invalid literal for int() with base 10: '' @ [CHR 0x27, CHR 0x27]))"
    by (simp add: sample_collaborators_def spec_collaborators_def sample_int_def)
  have c: "ListTaskHandler_get sample_collaborators (query [(''limit'', [])] [])
             (start sample_world)
           = (start sample_world)
               \<lparr>calls := [GetTasks None],
                written := [py_dumps (PyList [task_view ''T1'' TaskStatus_SUCCESS,
                                             task_view ''T2'' TaskStatus_PENDING])]\<rparr>"
    by (simp add: list_defs sample_limit_empty sample_collaborators_def spec_collaborators_def
        spec_get_tasks_def guarded_def start_def sample_world_def)
  show ?thesis
    unfolding c
    using a b sample_limit_empty by (simp add: start_def)
qed

end
